theory Spec2Isabelle
  imports Main "HOL-Library.Sublist"
begin

section \<open>JavaScript values used by the HR Copilot function\<close>

text \<open>
  A string is the list of the bytes of its text in UTF-8 (a lone surrogate of a JavaScript
  string as its three bytes): a character of ASCII is one \<open>char\<close> below \<open>0x80\<close>, and every
  other code point is a run of \<open>char\<close>s from \<open>0x80\<close> on. No code of the program counts the
  characters of a string.

  \<open>String.prototype.toLowerCase\<close> maps the letters \<open>A\<close> to \<open>Z\<close> to \<open>a\<close> to \<open>z\<close> and leaves every
  other character of ASCII as it is, wherever the character stands. What it does to the
  rest of a string is written in the case tables of Unicode that the JavaScript runtime
  carries (the Kelvin sign \<open>U+212A\<close> becomes \<open>k\<close>, a capital sigma becomes one of two small
  sigmas by its place in the word). These tables are not part of the repository; they are
  a parameter: a table gives, for a string and the position of a byte from \<open>0x80\<close> on, the
  bytes that stand for this byte in the lower-cased string.
\<close>

type_synonym unicode_table = "string \<Rightarrow> nat \<Rightarrow> string"

definition toLowerCase_char :: "char \<Rightarrow> char" where
  "toLowerCase_char c =
     (case map_of (zip ''ABCDEFGHIJKLMNOPQRSTUVWXYZ'' ''abcdefghijklmnopqrstuvwxyz'') c of
        Some l \<Rightarrow> l
      | None \<Rightarrow> c)"

text \<open>The lower-casing of the part \<open>cs\<close> of the string \<open>s\<close> that starts at position \<open>i\<close>.\<close>

fun lower_from :: "unicode_table \<Rightarrow> string \<Rightarrow> nat \<Rightarrow> string \<Rightarrow> string" where
  "lower_from U s i [] = []"
| "lower_from U s i (c # cs) =
     (if digit7 c then U s i else [toLowerCase_char c]) @ lower_from U s (Suc i) cs"

definition toLowerCase :: "unicode_table \<Rightarrow> string \<Rightarrow> string" where
  "toLowerCase U s = lower_from U s 0 s"

text \<open>
  \<open>s.includes(sub)\<close>: does \<open>sub\<close> occur in \<open>s\<close> as a contiguous run of characters?
  The search tries every start position from left to right.
\<close>

fun str_includes :: "string \<Rightarrow> string \<Rightarrow> bool" where
  "str_includes [] sub = (sub = [])"
| "str_includes (c # cs) sub = (prefix sub (c # cs) \<or> str_includes cs sub)"

text \<open>
  A thrown JavaScript error: its constructor name and its \<open>message\<close>. A function that can
  throw returns \<open>js_error + 'a\<close>, with \<open>Inl\<close> for the thrown error.
\<close>

datatype js_error = JsError (error_name: string) (message: string)

text \<open>
  Reading a property of \<open>undefined\<close>, calling a function of it, or spreading it into an array
  literal throws a \<open>TypeError\<close>.
\<close>

definition TypeError :: "string \<Rightarrow> js_error" where
  "TypeError m = JsError ''TypeError'' m"

text \<open>
  Evaluating a name that the module neither declares nor imports throws a
  \<open>ReferenceError\<close>.
\<close>

definition ReferenceError :: "string \<Rightarrow> js_error" where
  "ReferenceError m = JsError ''ReferenceError'' m"


section \<open>The classifier: HRInputProcessingTool\<close>

text \<open>
  \<open>HRInputProcessingTool._call\<close> of the function's main file (src/src/main.js, lines 46 to 59),
  applied to a query that is a string, with the case tables \<open>U\<close> of the runtime. The
  branches are tried in the order of the source.
\<close>

definition HRInputProcessingTool_call :: "unicode_table \<Rightarrow> string \<Rightarrow> string" where
  "HRInputProcessingTool_call U query =
     (let lowercaseInput = toLowerCase U query in
      if str_includes lowercaseInput ''policy'' \<or> str_includes lowercaseInput ''handbook''
        then ''POLICY''
      else if str_includes lowercaseInput ''leave'' \<or> str_includes lowercaseInput ''vacation''
        then ''LEAVE''
      else if str_includes lowercaseInput ''salary'' \<or> str_includes lowercaseInput ''compensation''
        then ''COMPENSATION''
      else if str_includes lowercaseInput ''training'' \<or> str_includes lowercaseInput ''development''
        then ''TRAINING''
      else ''GENERAL'')"

text \<open>
  The same function in the two other variants of the file (the one commented
  ``Simplified HR Input Processing Tool'', src/unnamed/part\_000 lines 58 to 69, and
  src/src/main.js lines 359 to 371): there is no branch for training.
\<close>

definition HRInputProcessingTool_call_simplified :: "unicode_table \<Rightarrow> string \<Rightarrow> string" where
  "HRInputProcessingTool_call_simplified U query =
     (let lowercaseInput = toLowerCase U query in
      if str_includes lowercaseInput ''policy'' \<or> str_includes lowercaseInput ''handbook''
        then ''POLICY''
      else if str_includes lowercaseInput ''leave'' \<or> str_includes lowercaseInput ''vacation''
        then ''LEAVE''
      else if str_includes lowercaseInput ''salary'' \<or> str_includes lowercaseInput ''compensation''
        then ''COMPENSATION''
      else ''GENERAL'')"

text \<open>
  What the specification calls case-insensitive substring matching, written from its words
  and not from the code: the keyword is a contiguous part of the query once the case of
  the query is folded.
\<close>

definition occurs :: "unicode_table \<Rightarrow> string \<Rightarrow> string \<Rightarrow> bool" where
  "occurs U q kw \<longleftrightarrow> (\<exists>pre post. toLowerCase U q = pre @ kw @ post)"

text \<open>
  The plain case of it: some contiguous part of the query is the keyword, written with
  upper-case or lower-case letters of ASCII.
\<close>

definition mentions :: "string \<Rightarrow> string \<Rightarrow> bool" where
  "mentions q kw \<longleftrightarrow>
     (\<exists>pre w post. q = pre @ w @ post \<and> map toLowerCase_char w = map toLowerCase_char kw)"

definition keyword_table :: "string list" where
  "keyword_table =
     [''policy'', ''handbook'', ''leave'', ''vacation'', ''salary'', ''compensation'',
      ''training'', ''development'']"

definition is_whitespace :: "char \<Rightarrow> bool" where
  "is_whitespace c \<longleftrightarrow> c \<in> {CHR '' '', CHR 0x09, CHR 0x0A, CHR 0x0B, CHR 0x0C, CHR 0x0D}"


section \<open>The pipeline state\<close>

record employee_context =
  department :: string
  role :: string
  tenure :: string

datatype speaker = user | assistant

text \<open>
  An entry of the conversation history. Its content is whatever value the state held when
  the entry was built, so it may be \<open>undefined\<close> (\<open>None\<close>).
\<close>

record history_entry =
  speaker :: speaker
  content :: "string option"

text \<open>
  The channels of the state graph. A channel that has not been written, or that the caller
  left out, is \<open>undefined\<close> (\<open>None\<close>).
\<close>

record state =
  query :: "string option"
  category :: "string option"
  pinecone_result :: "string option"
  llamaindex_result :: "string option"
  employee_context :: "employee_context option"
  conversation_history :: "history_entry list option"
  final_response :: "string option"


section \<open>The external collaborators\<close>

text \<open>
  The vector index answers a query with a response whose \<open>matches\<close> may be missing; a match
  may have no metadata and the metadata no text.
\<close>

datatype match_metadata = Metadata (md_text: "string option")

datatype match = Match (metadata: "match_metadata option")

datatype query_response = QueryResponse (matches: "match list option")

type_synonym embedding = "int list"

type_synonym vector_index = nat

text \<open>
  Everything the program calls outside itself is a field of the environment, with the
  outcome of the call: \<open>Inl\<close> when the call throws.
  \<^item> \<open>pinecone_Index\<close>: \<open>pinecone.Index('chatbot')\<close>;
  \<^item> \<open>embedQuery\<close>: building the embeddings client and \<open>embeddings.embedQuery(query)\<close>;
  \<^item> \<open>index_query\<close>: \<open>index.query({vector, topK: 1, includeMetadata: true})\<close>;
  \<^item> \<open>fromDocuments\<close>: \<open>serviceContextFromDefaults\<close> and \<open>VectorStoreIndex.fromDocuments\<close>;
  \<^item> \<open>queryEngine_query\<close>: \<open>index.asQueryEngine().query(query)\<close> and the response's
    \<open>toString()\<close>;
  \<^item> \<open>chain_invoke\<close>: the runnable sequence of the prompt template, the chat model and the
    output parser, invoked on the state;
  \<^item> \<open>setupPinecone\<close>: the construction of the Pinecone client;
  \<^item> \<open>build_agent\<close>: the constructors that \<open>createEnhancedHRCopilotAgent\<close> and
    \<open>createHRCopilotAgent\<close> call for the chat model, the tools and the state graph, and
    \<open>workflow.compile()\<close>;
  \<^item> \<open>queryEngine_query2\<close>: in the second variant of the LlamaIndex tool,
    \<open>this.queryEngine.query({query})\<close> and the read of \<open>results.message.content\<close>; it
    throws when the engine has not been built;
  \<^item> \<open>Date_now\<close>: the clock, in milliseconds;
  \<^item> \<open>unicode_lower\<close>: the case tables of the runtime.
\<close>

record env =
  pinecone_Index :: "string \<Rightarrow> js_error + unit"
  embedQuery :: "string option \<Rightarrow> js_error + embedding"
  index_query :: "embedding \<Rightarrow> js_error + query_response"
  fromDocuments :: "js_error + vector_index"
  queryEngine_query :: "vector_index \<Rightarrow> string option \<Rightarrow> js_error + string"
  chain_invoke :: "state \<Rightarrow> js_error + string"
  setupPinecone :: "js_error + unit"
  build_agent :: "js_error + unit"
  queryEngine_query2 :: "string option \<Rightarrow> js_error + string"
  Date_now :: nat
  unicode_lower :: unicode_table


section \<open>The retrievers\<close>

text \<open>
  \<open>queryPinecone\<close> of the second and of the simplified variant (src/src/main.js, lines 334
  to 349, and src/unnamed/part\_000, lines 33 to 48), whose file imports the embeddings
  class. First the calls inside its \<open>try\<close> block, up to the response.
\<close>

definition pinecone_lookup :: "env \<Rightarrow> string option \<Rightarrow> js_error + query_response" where
  "pinecone_lookup e q =
     (case pinecone_Index e ''chatbot'' of
        Inl err \<Rightarrow> Inl err
      | Inr _ \<Rightarrow>
          (case embedQuery e q of
             Inl err \<Rightarrow> Inl err
           | Inr queryEmbedding \<Rightarrow> index_query e queryEmbedding))"

text \<open>
  \<open>queryResponse.matches[0]?.metadata?.text\<close>: reading index 0 of missing \<open>matches\<close> throws;
  past that, every missing link gives \<open>undefined\<close>.
\<close>

definition first_match_text :: "query_response \<Rightarrow> js_error + string option" where
  "first_match_text r =
     (case matches r of
        None \<Rightarrow> Inl (TypeError ''Cannot read properties of undefined (reading '0')'')
      | Some ms \<Rightarrow>
          Inr (case ms of
                 [] \<Rightarrow> None
               | m # _ \<Rightarrow> (case metadata m of None \<Rightarrow> None | Some md \<Rightarrow> md_text md)))"

text \<open>\<open>v || d\<close> on a string or \<open>undefined\<close>: the empty string and \<open>undefined\<close> are falsy.\<close>

definition or_default :: "string option \<Rightarrow> string \<Rightarrow> string" where
  "or_default v d = (case v of None \<Rightarrow> d | Some s \<Rightarrow> if s = [] then d else s)"

definition queryPinecone_try :: "env \<Rightarrow> string option \<Rightarrow> js_error + string" where
  "queryPinecone_try e q =
     (case pinecone_lookup e q of
        Inl err \<Rightarrow> Inl err
      | Inr queryResponse \<Rightarrow>
          (case first_match_text queryResponse of
             Inl err \<Rightarrow> Inl err
           | Inr t \<Rightarrow> Inr (or_default t ''No relevant information found.'')))"

definition queryPinecone :: "env \<Rightarrow> string option \<Rightarrow> string" where
  "queryPinecone e q =
     (case queryPinecone_try e q of
        Inl err \<Rightarrow> ''Error retrieving information from Pinecone''
      | Inr result \<Rightarrow> result)"

text \<open>
  \<open>PineconeQueryTool._call\<close> of the main file (src/src/main.js, lines 75 to 90). The
  statements of its \<open>try\<close> block are those of \<open>queryPinecone\<close>, but the main file does not
  import \<open>HuggingFaceTransformersEmbeddings\<close> (lines 18 to 28): the second statement,
  \<open>new HuggingFaceTransformersEmbeddings()\<close>, throws on every call.
\<close>

definition new_HuggingFaceTransformersEmbeddings :: "js_error + unit" where
  "new_HuggingFaceTransformersEmbeddings =
     Inl (ReferenceError ''HuggingFaceTransformersEmbeddings is not defined'')"

definition PineconeQueryTool_try :: "env \<Rightarrow> string option \<Rightarrow> js_error + string" where
  "PineconeQueryTool_try e q =
     (case pinecone_Index e ''chatbot'' of
        Inl err \<Rightarrow> Inl err
      | Inr _ \<Rightarrow>
          (case new_HuggingFaceTransformersEmbeddings of
             Inl err \<Rightarrow> Inl err
           | Inr _ \<Rightarrow>
               (case embedQuery e q of
                  Inl err \<Rightarrow> Inl err
                | Inr queryEmbedding \<Rightarrow>
                    (case index_query e queryEmbedding of
                       Inl err \<Rightarrow> Inl err
                     | Inr queryResponse \<Rightarrow>
                         (case first_match_text queryResponse of
                            Inl err \<Rightarrow> Inl err
                          | Inr t \<Rightarrow> Inr (or_default t ''No relevant information found.''))))))"

definition PineconeQueryTool_call :: "env \<Rightarrow> string option \<Rightarrow> string" where
  "PineconeQueryTool_call e q =
     (case PineconeQueryTool_try e q of
        Inl err \<Rightarrow> ''Error retrieving information from Pinecone''
      | Inr result \<Rightarrow> result)"

text \<open>
  The tools of a compiled agent. Only the LlamaIndex tool has a field that an assignment
  of the program writes: its \<open>index\<close>.
\<close>

record tools =
  llama_index :: "vector_index option"

text \<open>
  \<open>LlamaIndexTool.initialize\<close> of the main file (lines 105 to 111) first awaits
  \<open>fetchDocumentsFromAppwrite\<close> (lines 113 to 130), whose first statement is
  \<open>new Storage(client)\<close>. The main file does not import \<open>Storage\<close>, so that statement throws,
  the \<open>catch\<close> of the function throws the error again, and \<open>initialize\<close> ends with it before
  it builds the index (\<open>fromDocuments\<close>) and assigns it to \<open>this.index\<close>.
\<close>

definition fetchDocumentsFromAppwrite :: "js_error + unit" where
  "fetchDocumentsFromAppwrite = Inl (ReferenceError ''Storage is not defined'')"

definition LlamaIndexTool_initialize :: "env \<Rightarrow> js_error + vector_index" where
  "LlamaIndexTool_initialize e =
     (case fetchDocumentsFromAppwrite of
        Inl err \<Rightarrow> Inl err
      | Inr documents \<Rightarrow> fromDocuments e)"

text \<open>
  The \<open>try\<close> block of \<open>LlamaIndexTool._call\<close> (src/src/main.js, lines 132 to 144), with the
  tool after it. A failed \<open>initialize\<close> leaves the index unset.
\<close>

definition LlamaIndexTool_try ::
  "env \<Rightarrow> tools \<Rightarrow> string option \<Rightarrow> tools \<times> (js_error + string)" where
  "LlamaIndexTool_try e t q =
     (case llama_index t of
        None \<Rightarrow>
          (case LlamaIndexTool_initialize e of
             Inl err \<Rightarrow> (t, Inl err)
           | Inr i \<Rightarrow> (t\<lparr>llama_index := Some i\<rparr>, queryEngine_query e i q))
      | Some i \<Rightarrow> (t, queryEngine_query e i q))"

definition LlamaIndexTool_call :: "env \<Rightarrow> tools \<Rightarrow> string option \<Rightarrow> tools \<times> string" where
  "LlamaIndexTool_call e t q =
     (case LlamaIndexTool_try e t q of
        (t', Inl err) \<Rightarrow> (t', ''Error retrieving information from LlamaIndex'')
      | (t', Inr response) \<Rightarrow> (t', response))"


section \<open>The nodes of the workflow (src/src/main.js, lines 186 to 252)\<close>

text \<open>
  A node takes the state and returns the channels it writes; the graph stores them into
  the state. Here a node returns the state after that write, or the error it threw.
\<close>

definition employeeContextNode :: "state \<Rightarrow> js_error + state" where
  "employeeContextNode s = Inr (s\<lparr>employee_context := employee_context s\<rparr>)"

text \<open>
  The categorize node calls the classifier's \<open>_call\<close> directly, so nothing checks the query
  before \<open>query.toLowerCase()\<close>: on a missing query that call throws.
\<close>

definition categorizeNode :: "env \<Rightarrow> state \<Rightarrow> js_error + state" where
  "categorizeNode e s =
     (case query s of
        None \<Rightarrow> Inl (TypeError ''Cannot read properties of undefined (reading 'toLowerCase')'')
      | Some q \<Rightarrow> Inr (s\<lparr>category := Some (HRInputProcessingTool_call (unicode_lower e) q)\<rparr>))"

definition pineconeNode :: "env \<Rightarrow> state \<Rightarrow> js_error + state" where
  "pineconeNode e s = Inr (s\<lparr>pinecone_result := Some (PineconeQueryTool_call e (query s))\<rparr>)"

definition llamaindexNode :: "env \<Rightarrow> tools \<Rightarrow> state \<Rightarrow> tools \<times> (js_error + state)" where
  "llamaindexNode e t s =
     (case LlamaIndexTool_call e t (query s) of
        (t', result) \<Rightarrow> (t', Inr (s\<lparr>llamaindex_result := Some result\<rparr>)))"

definition responseNode :: "env \<Rightarrow> state \<Rightarrow> js_error + state" where
  "responseNode e s =
     (case chain_invoke e s of
        Inl err \<Rightarrow> Inl err
      | Inr result \<Rightarrow> Inr (s\<lparr>final_response := Some result\<rparr>))"

definition conversationHistoryNode :: "state \<Rightarrow> js_error + state" where
  "conversationHistoryNode s =
     (case conversation_history s of
        None \<Rightarrow> Inl (TypeError ''state.conversation_history is not iterable'')
      | Some h \<Rightarrow>
          Inr (s\<lparr>conversation_history :=
                 Some (h @ [\<lparr>speaker = user, content = query s\<rparr>,
                            \<lparr>speaker = assistant, content = final_response s\<rparr>])\<rparr>))"


section \<open>The workflow graph and its run\<close>

datatype node =
  fetch_employee_context | categorize | pinecone_query | llamaindex_query | respond
  | update_conversation_history

text \<open>The entry point and the edges as the source adds them; \<open>None\<close> is \<open>END\<close>.\<close>

definition entry_point :: node where
  "entry_point = fetch_employee_context"

definition edges :: "(node \<times> node option) list" where
  "edges =
     [(fetch_employee_context, Some categorize),
      (categorize, Some pinecone_query),
      (pinecone_query, Some llamaindex_query),
      (llamaindex_query, Some respond),
      (respond, Some update_conversation_history),
      (update_conversation_history, None)]"

text \<open>
  The nodes from a node to \<open>END\<close>, following the edges for at most \<open>fuel\<close> steps: \<open>None\<close> when
  \<open>END\<close> is not reached within them, or when a node has no edge.
\<close>

fun path_from :: "(node \<times> node option) list \<Rightarrow> nat \<Rightarrow> node \<Rightarrow> node list option" where
  "path_from es 0 n = None"
| "path_from es (Suc fuel) n =
     (case map_of es n of
        None \<Rightarrow> None
      | Some None \<Rightarrow> Some [n]
      | Some (Some n') \<Rightarrow> map_option ((#) n) (path_from es fuel n'))"

definition run_node :: "env \<Rightarrow> node \<Rightarrow> tools \<Rightarrow> state \<Rightarrow> tools \<times> (js_error + state)" where
  "run_node e n t s =
     (case n of
        fetch_employee_context \<Rightarrow> (t, employeeContextNode s)
      | categorize \<Rightarrow> (t, categorizeNode e s)
      | pinecone_query \<Rightarrow> (t, pineconeNode e s)
      | llamaindex_query \<Rightarrow> llamaindexNode e t s
      | respond \<Rightarrow> (t, responseNode e s)
      | update_conversation_history \<Rightarrow> (t, conversationHistoryNode s))"

text \<open>
  A run: the nodes that were executed, each with the state it was given, the objects the
  nodes share (the tools, or the agent manager) after the run, and the final state or the
  error that stopped the run. A node that throws stops the run: the graph has no handler
  and no retry.
\<close>

record 'w run =
  visited :: "(node \<times> state) list"
  shared_after :: 'w
  outcome :: "js_error + state"

fun run_nodes ::
  "(node \<Rightarrow> 'w \<Rightarrow> state \<Rightarrow> 'w \<times> (js_error + state)) \<Rightarrow> node list \<Rightarrow> 'w \<Rightarrow> state \<Rightarrow> 'w run"
  where
  "run_nodes step [] w s = \<lparr>visited = [], shared_after = w, outcome = Inr s\<rparr>"
| "run_nodes step (n # ns) w s =
     (case step n w s of
        (w', Inl err) \<Rightarrow> \<lparr>visited = [(n, s)], shared_after = w', outcome = Inl err\<rparr>
      | (w', Inr s') \<Rightarrow>
          (let r = run_nodes step ns w' s' in r\<lparr>visited := (n, s) # visited r\<rparr>))"

text \<open>The run of a compiled graph from its entry point.\<close>

definition invoke_graph ::
  "(node \<Rightarrow> 'w \<Rightarrow> state \<Rightarrow> 'w \<times> (js_error + state)) \<Rightarrow> (node \<times> node option) list \<Rightarrow> node
     \<Rightarrow> 'w \<Rightarrow> state \<Rightarrow> 'w run" where
  "invoke_graph step es entry w s =
     (case path_from es (length es) entry of
        None \<Rightarrow> \<lparr>visited = [], shared_after = w,
                  outcome = Inl (JsError ''Error'' ''the graph does not reach END'')\<rparr>
      | Some ns \<Rightarrow> run_nodes step ns w s)"

text \<open>\<open>hrCopilot.invoke(input)\<close> on the graph of the main file.\<close>

definition invoke :: "env \<Rightarrow> tools \<Rightarrow> state \<Rightarrow> tools run" where
  "invoke e t s = invoke_graph (run_node e) edges entry_point t s"


section \<open>The handler of the main file (src/src/main.js, lines 266 to 307)\<close>

text \<open>
  The values that the handlers put into a response object. The object is sent as JSON
  text, in which a property whose value is \<open>undefined\<close> is left out.
\<close>

datatype jsvalue =
  Undefined | Num nat | Str string | Ctx employee_context | History "history_entry list"

definition of_string :: "string option \<Rightarrow> jsvalue" where
  "of_string v = (case v of None \<Rightarrow> Undefined | Some s \<Rightarrow> Str s)"

definition of_context :: "employee_context option \<Rightarrow> jsvalue" where
  "of_context v = (case v of None \<Rightarrow> Undefined | Some c \<Rightarrow> Ctx c)"

definition of_history :: "history_entry list option \<Rightarrow> jsvalue" where
  "of_history v = (case v of None \<Rightarrow> Undefined | Some h \<Rightarrow> History h)"

record response =
  status_code :: nat
  body :: "(string \<times> jsvalue) list"

definition res_json :: "(string \<times> jsvalue) list \<Rightarrow> nat \<Rightarrow> response" where
  "res_json obj code = \<lparr>status_code = code, body = filter (\<lambda>(k, v). v \<noteq> Undefined) obj\<rparr>"

text \<open>The fields that the handler reads from \<open>req.body\<close>; each may be missing.\<close>

record request_body =
  body_query :: "string option"
  body_employee_context :: "employee_context option"
  body_conversation_history :: "history_entry list option"

record request =
  req_method :: string
  req_body :: "request_body option"

text \<open>
  \<open>initialize\<close>: the agent is built on the first request and kept in the module variable
  \<open>hrCopilot\<close> (\<open>None\<close> is \<open>null\<close>). The variable is assigned only when the construction
  succeeds.
\<close>

definition initialize :: "env \<Rightarrow> tools option \<Rightarrow> js_error + tools" where
  "initialize e hrCopilot =
     (case hrCopilot of
        Some t \<Rightarrow> Inr t
      | None \<Rightarrow>
          (case setupPinecone e of
             Inl err \<Rightarrow> Inl err
           | Inr _ \<Rightarrow>
               (case build_agent e of
                  Inl err \<Rightarrow> Inl err
                | Inr _ \<Rightarrow> Inr \<lparr>llama_index = None\<rparr>)))"

text \<open>
  What a call of the handler leaves behind: the response, the module variable, and the
  nodes of the graph that were executed.
\<close>

record handled =
  response :: response
  hrCopilot_after :: "tools option"
  executed :: "node list"

definition internal_server_error :: "js_error \<Rightarrow> response" where
  "internal_server_error err =
     res_json [(''status'', Num 500), (''message'', Str ''Internal Server Error''),
               (''error'', Str (message err))] 500"

text \<open>
  The object that the handler passes to \<open>hrCopilot.invoke\<close>: the three fields of the
  body; no other channel has a value yet.
\<close>

definition input_state :: "request_body \<Rightarrow> state" where
  "input_state b =
     \<lparr>query = body_query b, category = None, pinecone_result = None,
      llamaindex_result = None,
      employee_context = body_employee_context b,
      conversation_history = body_conversation_history b,
      final_response = None\<rparr>"

definition handler :: "env \<Rightarrow> tools option \<Rightarrow> request \<Rightarrow> handled" where
  "handler e hrCopilot req =
     (if req_method req \<noteq> ''POST'' then
        \<lparr>response = res_json [(''status'', Num 405), (''message'', Str ''Method Not Allowed'')] 405,
         hrCopilot_after = hrCopilot, executed = []\<rparr>
      else
        (case initialize e hrCopilot of
           Inl err \<Rightarrow>
             \<lparr>response = internal_server_error err, hrCopilot_after = hrCopilot, executed = []\<rparr>
         | Inr t \<Rightarrow>
             (case req_body req of
                None \<Rightarrow>
                  \<lparr>response = internal_server_error
                     (TypeError ''Cannot destructure property 'query' of 'req.body' as it is undefined.''),
                   hrCopilot_after = Some t, executed = []\<rparr>
              | Some b \<Rightarrow>
                  (let r = invoke e t (input_state b)
                   in case outcome r of
                        Inl err \<Rightarrow>
                          \<lparr>response = internal_server_error err,
                           hrCopilot_after = Some (shared_after r),
                           executed = map fst (visited r)\<rparr>
                      | Inr result \<Rightarrow>
                          \<lparr>response =
                             res_json [(''status'', Num 200), (''message'', Str ''Success''),
                                       (''final_response'', of_string (final_response result)),
                                       (''category'', of_string (category result))] 200,
                           hrCopilot_after = Some (shared_after r),
                           executed = map fst (visited r)\<rparr>))))"


section \<open>The agent manager and the ticket system (src/src/main.js, lines 437 to 481)\<close>

record agent =
  agent_type :: string
  agent_status :: string
  metrics :: "string \<rightharpoonup> nat"

type_synonym agents = "string \<rightharpoonup> agent"

definition addAgent :: "string \<Rightarrow> string \<Rightarrow> agents \<Rightarrow> agents" where
  "addAgent name type as =
     as(name \<mapsto> \<lparr>agent_type = type, agent_status = ''active'', metrics = Map.empty\<rparr>)"

text \<open>\<open>{ ...agent.metrics, ...metrics }\<close>: the new metrics win over the old ones.\<close>

definition updateAgentMetrics :: "string \<Rightarrow> (string \<rightharpoonup> nat) \<Rightarrow> agents \<Rightarrow> agents" where
  "updateAgentMetrics name ms as =
     (case as name of
        None \<Rightarrow> as
      | Some a \<Rightarrow> as(name \<mapsto> a\<lparr>metrics := metrics a ++ ms\<rparr>))"

definition getAgentStatus :: "string \<Rightarrow> agents \<Rightarrow> string" where
  "getAgentStatus name as =
     or_default (case as name of None \<Rightarrow> None | Some a \<Rightarrow> Some (agent_status a)) ''not found''"

record ticket_update =
  timestamp :: nat
  update_content :: string

record ticket =
  ticket_id :: string
  description :: string
  status :: string
  priority :: string
  updates :: "ticket_update list"

type_synonym tickets = "string \<rightharpoonup> ticket"

text \<open>The decimal digits of a number, as a template literal prints it.\<close>

function string_of_nat :: "nat \<Rightarrow> string" where
  "string_of_nat n =
     (if n < 10 then [''0123456789'' ! n]
      else string_of_nat (n div 10) @ [''0123456789'' ! (n mod 10)])"
  by pat_completeness auto
termination
  by (relation "measure id") auto

declare string_of_nat.simps [simp del]

text \<open>
  \<open>createTicket(description, priority = 'medium')\<close> at the time \<open>now\<close> of the clock: the
  identifier that is returned, and the tickets after the call. A priority that is not
  passed (\<open>None\<close>) takes the default.
\<close>

definition createTicket :: "nat \<Rightarrow> string \<Rightarrow> string option \<Rightarrow> tickets \<Rightarrow> string \<times> tickets" where
  "createTicket now d p ts =
     (let i = ''TICKET-'' @ string_of_nat now in
      (i, ts(i \<mapsto> \<lparr>ticket_id = i, description = d, status = ''open'',
                      priority = (case p of None \<Rightarrow> ''medium'' | Some v \<Rightarrow> v),
                      updates = []\<rparr>)))"

definition updateTicket :: "nat \<Rightarrow> string \<Rightarrow> string \<Rightarrow> tickets \<Rightarrow> tickets" where
  "updateTicket now i u ts =
     (case ts i of
        None \<Rightarrow> ts
      | Some t \<Rightarrow> ts(i \<mapsto> t\<lparr>updates := updates t @ [\<lparr>timestamp = now, update_content = u\<rparr>]\<rparr>))"

definition getTicketStatus :: "string \<Rightarrow> tickets \<Rightarrow> string" where
  "getTicketStatus i ts =
     or_default (case ts i of None \<Rightarrow> None | Some t \<Rightarrow> Some (status t)) ''not found''"

text \<open>
  The calls that a client of the ticket system can make, each with the time of the clock
  when it is made, and a ticket system after a sequence of calls on a new one. The list
  of identifiers holds what \<open>createTicket\<close> returned, latest first.
\<close>

datatype ticket_call =
  CreateTicket nat string "string option"
  | UpdateTicket nat string string

fun ticket_step :: "ticket_call \<Rightarrow> string list \<times> tickets \<Rightarrow> string list \<times> tickets" where
  "ticket_step (CreateTicket now d p) (ids, ts) =
     (case createTicket now d p ts of (i, ts') \<Rightarrow> (i # ids, ts'))"
| "ticket_step (UpdateTicket now i u) (ids, ts) = (ids, updateTicket now i u ts)"

definition ticket_system_after :: "ticket_call list \<Rightarrow> string list \<times> tickets" where
  "ticket_system_after calls = foldl (\<lambda>st c. ticket_step c st) ([], Map.empty) calls"


section \<open>The second variant of the function (src/src/main.js, lines 307 to 657)\<close>

text \<open>
  \<open>PineconeQueryTool._call\<close> of this variant (lines 387 to 389) returns what
  \<open>queryPinecone\<close> returns.
\<close>

definition PineconeQueryTool_call2 :: "env \<Rightarrow> string option \<Rightarrow> string" where
  "PineconeQueryTool_call2 e q = queryPinecone e q"

text \<open>
  \<open>LlamaIndexTool._call\<close> of this variant (lines 424 to 434). The query engine is built by
  \<open>initializeLlamaIndex\<close>, which the constructor starts and does not wait for; as long as
  the engine is not built, also when that start has failed, the query throws inside the
  \<open>try\<close> block. (A failure of the start itself is a rejected promise of the constructor,
  outside every call of \<open>_call\<close>.)
\<close>

definition LlamaIndexTool_call2 :: "env \<Rightarrow> string option \<Rightarrow> string" where
  "LlamaIndexTool_call2 e q =
     (case queryEngine_query2 e q of
        Inl err \<Rightarrow> ''Error retrieving information from LlamaIndex''
      | Inr c \<Rightarrow> c)"

text \<open>
  The nodes of this variant (lines 518 to 590). The employee context node reads the three
  fields of the context, which throws when there is no context. The nodes that call a tool
  also count the query in the agent manager.
\<close>

definition employeeContextNode2 :: "state \<Rightarrow> js_error + state" where
  "employeeContextNode2 s =
     (case employee_context s of
        None \<Rightarrow> Inl (TypeError ''Cannot read properties of undefined (reading 'department')'')
      | Some c \<Rightarrow>
          Inr (s\<lparr>employee_context :=
                 Some \<lparr>department = department c, role = role c, tenure = tenure c\<rparr>\<rparr>))"

definition queries_processed :: "string \<rightharpoonup> nat" where
  "queries_processed = [''queries_processed'' \<mapsto> 1]"

definition categorizeNode2 :: "env \<Rightarrow> agents \<Rightarrow> state \<Rightarrow> agents \<times> (js_error + state)" where
  "categorizeNode2 e as s =
     (case query s of
        None \<Rightarrow> (as, Inl (TypeError ''Cannot read properties of undefined (reading 'toLowerCase')''))
      | Some q \<Rightarrow>
          (updateAgentMetrics ''HR Input Processing'' queries_processed as,
           Inr (s\<lparr>category :=
                  Some (HRInputProcessingTool_call_simplified (unicode_lower e) q)\<rparr>)))"

definition pineconeNode2 :: "env \<Rightarrow> agents \<Rightarrow> state \<Rightarrow> agents \<times> (js_error + state)" where
  "pineconeNode2 e as s =
     (updateAgentMetrics ''Pinecone Query'' queries_processed as,
      Inr (s\<lparr>pinecone_result := Some (PineconeQueryTool_call2 e (query s))\<rparr>))"

definition llamaindexNode2 :: "env \<Rightarrow> agents \<Rightarrow> state \<Rightarrow> agents \<times> (js_error + state)" where
  "llamaindexNode2 e as s =
     (updateAgentMetrics ''LlamaIndex Query'' queries_processed as,
      Inr (s\<lparr>llamaindex_result := Some (LlamaIndexTool_call2 e (query s))\<rparr>))"

definition run_node2 :: "env \<Rightarrow> node \<Rightarrow> agents \<Rightarrow> state \<Rightarrow> agents \<times> (js_error + state)" where
  "run_node2 e n as s =
     (case n of
        fetch_employee_context \<Rightarrow> (as, employeeContextNode2 s)
      | categorize \<Rightarrow> categorizeNode2 e as s
      | pinecone_query \<Rightarrow> pineconeNode2 e as s
      | llamaindex_query \<Rightarrow> llamaindexNode2 e as s
      | respond \<Rightarrow> (as, responseNode e s)
      | update_conversation_history \<Rightarrow> (as, conversationHistoryNode s))"

text \<open>The graph of this variant has the entry point and the edges of the main file.\<close>

definition invoke2 :: "env \<Rightarrow> agents \<Rightarrow> state \<Rightarrow> agents run" where
  "invoke2 e as s = invoke_graph (run_node2 e) edges entry_point as s"

text \<open>
  The request of this variant carries a JSON text, \<open>req.payload\<close>. It is given here as
  \<open>JSON.parse\<close> reads it: the error that the parse throws, or the two fields that the
  handler takes from the object.
\<close>

record payload =
  payload_query :: "string option"
  employeeContext :: "employee_context option"

text \<open>
  The escalation after a run (lines 634 to 638, and lines 221 to 225 of
  src/unnamed/part\_000): the ticket identifier put on the result, if any, and the tickets
  after it. Lower-casing a missing response throws. A missing query is printed as
  \<open>undefined\<close> by the template literal.
\<close>

definition escalate ::
  "env \<Rightarrow> string option \<Rightarrow> state \<Rightarrow> tickets \<Rightarrow> js_error + (string option \<times> tickets)" where
  "escalate e q result ts =
     (case final_response result of
        None \<Rightarrow> Inl (TypeError ''Cannot read properties of undefined (reading 'toLowerCase')'')
      | Some r \<Rightarrow>
          if str_includes (toLowerCase (unicode_lower e) r) ''contact hr'' then
            (case createTicket (Date_now e)
                    (''Query requires human assistance: ''
                       @ (case q of None \<Rightarrow> ''undefined'' | Some v \<Rightarrow> v))
                    (Some ''high'') ts of
               (ticketId, ts') \<Rightarrow> Inr (Some ticketId, ts'))
          else Inr (None, ts))"

record handled2 =
  response2 :: response
  tickets_after :: tickets
  agents_after :: agents
  executed2 :: "node list"

definition processing_error :: "js_error \<Rightarrow> response" where
  "processing_error err =
     res_json [(''error'', Str ''An error occurred while processing your request.''),
               (''details'', Str (message err))] 500"

definition new_agents :: agents where
  "new_agents =
     addAgent ''LlamaIndex Query'' ''knowledge_base''
       (addAgent ''Pinecone Query'' ''knowledge_base''
          (addAgent ''HR Input Processing'' ''categorization'' Map.empty))"

text \<open>
  The object that \<open>appwriteFunction\<close> passes to \<open>hrCopilot.invoke\<close>: the query and the
  employee context of the payload, and an empty conversation history.
\<close>

definition input_state2 :: "payload \<Rightarrow> state" where
  "input_state2 p =
     \<lparr>query = payload_query p, category = None, pinecone_result = None,
      llamaindex_result = None, employee_context = employeeContext p,
      conversation_history = Some [], final_response = None\<rparr>"

text \<open>
  \<open>appwriteFunction\<close> (lines 605 to 657). The Pinecone client is set up before the \<open>try\<close>
  block, so an error of \<open>setupPinecone\<close> leaves the function (\<open>Inl\<close>); every later error is
  answered with status 500. The agent manager and the ticket system are new objects in
  each call.
\<close>

definition appwriteFunction :: "env \<Rightarrow> js_error + payload \<Rightarrow> js_error + handled2" where
  "appwriteFunction e req_payload =
     (case setupPinecone e of
        Inl err \<Rightarrow> Inl err
      | Inr _ \<Rightarrow>
          Inr (case build_agent e of
                 Inl err \<Rightarrow>
                   \<lparr>response2 = processing_error err, tickets_after = Map.empty,
                    agents_after = new_agents, executed2 = []\<rparr>
               | Inr _ \<Rightarrow>
                   (case req_payload of
                      Inl err \<Rightarrow>
                        \<lparr>response2 = processing_error err, tickets_after = Map.empty,
                         agents_after = new_agents, executed2 = []\<rparr>
                    | Inr p \<Rightarrow>
                        (let r = invoke2 e new_agents (input_state2 p)
                         in case outcome r of
                              Inl err \<Rightarrow>
                                \<lparr>response2 = processing_error err, tickets_after = Map.empty,
                                 agents_after = shared_after r,
                                 executed2 = map fst (visited r)\<rparr>
                            | Inr result \<Rightarrow>
                                (case escalate e (payload_query p) result Map.empty of
                                   Inl err \<Rightarrow>
                                     \<lparr>response2 = processing_error err,
                                      tickets_after = Map.empty,
                                      agents_after = shared_after r,
                                      executed2 = map fst (visited r)\<rparr>
                                 | Inr (ticketId, ts) \<Rightarrow>
                                     \<lparr>response2 =
                                        res_json
                                          [(''result'', of_string (final_response result)),
                                           (''category'', of_string (category result)),
                                           (''pinecone_result'',
                                              of_string (pinecone_result result)),
                                           (''llamaindex_result'',
                                              of_string (llamaindex_result result)),
                                           (''employee_context'',
                                              of_context (employee_context result)),
                                           (''conversation_history'',
                                              of_history (conversation_history result)),
                                           (''ticketId'', of_string ticketId)] 200,
                                      tickets_after = ts,
                                      agents_after = shared_after r,
                                      executed2 = map fst (visited r)\<rparr>)))))"


section \<open>The simplified variant of the function (src/unnamed/part\_000, lines 15 to 241)\<close>

text \<open>
  Its graph has three nodes, whose code is that of the second variant: categorize, the
  Pinecone query and the response.
\<close>

definition entry_point_simplified :: node where
  "entry_point_simplified = categorize"

definition edges_simplified :: "(node \<times> node option) list" where
  "edges_simplified =
     [(categorize, Some pinecone_query),
      (pinecone_query, Some respond),
      (respond, None)]"

definition invoke_simplified :: "env \<Rightarrow> agents \<Rightarrow> state \<Rightarrow> agents run" where
  "invoke_simplified e as s =
     invoke_graph (run_node2 e) edges_simplified entry_point_simplified as s"

definition new_agents_simplified :: agents where
  "new_agents_simplified =
     addAgent ''Pinecone Query'' ''knowledge_base''
       (addAgent ''HR Input Processing'' ''categorization'' Map.empty)"

text \<open>The object that the handler passes to \<open>hrCopilot.invoke\<close>: the query alone.\<close>

definition input_state_simplified :: "payload \<Rightarrow> state" where
  "input_state_simplified p =
     \<lparr>query = payload_query p, category = None, pinecone_result = None,
      llamaindex_result = None, employee_context = None,
      conversation_history = None, final_response = None\<rparr>"

text \<open>
  The handler (lines 191 to 241), given the payload as \<open>JSON.parse\<close> reads it; only the
  query is taken from it.
\<close>

definition handler_simplified :: "env \<Rightarrow> js_error + payload \<Rightarrow> js_error + handled2" where
  "handler_simplified e req_payload =
     (case setupPinecone e of
        Inl err \<Rightarrow> Inl err
      | Inr _ \<Rightarrow>
          Inr (case build_agent e of
                 Inl err \<Rightarrow>
                   \<lparr>response2 = processing_error err, tickets_after = Map.empty,
                    agents_after = new_agents_simplified, executed2 = []\<rparr>
               | Inr _ \<Rightarrow>
                   (case req_payload of
                      Inl err \<Rightarrow>
                        \<lparr>response2 = processing_error err, tickets_after = Map.empty,
                         agents_after = new_agents_simplified, executed2 = []\<rparr>
                    | Inr p \<Rightarrow>
                        (let r = invoke_simplified e new_agents_simplified
                               (input_state_simplified p)
                         in case outcome r of
                              Inl err \<Rightarrow>
                                \<lparr>response2 = processing_error err, tickets_after = Map.empty,
                                 agents_after = shared_after r,
                                 executed2 = map fst (visited r)\<rparr>
                            | Inr result \<Rightarrow>
                                (case escalate e (payload_query p) result Map.empty of
                                   Inl err \<Rightarrow>
                                     \<lparr>response2 = processing_error err,
                                      tickets_after = Map.empty,
                                      agents_after = shared_after r,
                                      executed2 = map fst (visited r)\<rparr>
                                 | Inr (ticketId, ts) \<Rightarrow>
                                     \<lparr>response2 =
                                        res_json
                                          [(''result'', of_string (final_response result)),
                                           (''category'', of_string (category result)),
                                           (''pinecone_result'',
                                              of_string (pinecone_result result)),
                                           (''ticketId'', of_string ticketId)] 200,
                                      tickets_after = ts,
                                      agents_after = shared_after r,
                                      executed2 = map fst (visited r)\<rparr>)))))"


section \<open>The state that the response node is given\<close>

text \<open>
  When the query is the string \<open>q\<close>, the nodes before the response node have written the
  category and the two retrieval results; nothing else of the input state has changed.
\<close>

definition before_respond :: "env \<Rightarrow> tools \<Rightarrow> state \<Rightarrow> string \<Rightarrow> state" where
  "before_respond e t s q =
     s\<lparr>category := Some (HRInputProcessingTool_call (unicode_lower e) q),
       pinecone_result := Some (PineconeQueryTool_call e (Some q)),
       llamaindex_result := Some (snd (LlamaIndexTool_call e t (Some q)))\<rparr>"

definition before_respond2 :: "env \<Rightarrow> state \<Rightarrow> string \<Rightarrow> employee_context \<Rightarrow> state" where
  "before_respond2 e s q c =
     s\<lparr>employee_context := Some c,
       category := Some (HRInputProcessingTool_call_simplified (unicode_lower e) q),
       pinecone_result := Some (PineconeQueryTool_call2 e (Some q)),
       llamaindex_result := Some (LlamaIndexTool_call2 e (Some q))\<rparr>"


definition before_respond_simplified :: "env \<Rightarrow> state \<Rightarrow> string \<Rightarrow> state" where
  "before_respond_simplified e s q =
     s\<lparr>category := Some (HRInputProcessingTool_call_simplified (unicode_lower e) q),
       pinecone_result := Some (PineconeQueryTool_call2 e (Some q))\<rparr>"

text \<open>The agent manager after the three tool nodes have counted their query.\<close>

definition counted :: "agents \<Rightarrow> agents" where
  "counted as =
     updateAgentMetrics ''LlamaIndex Query'' queries_processed
       (updateAgentMetrics ''Pinecone Query'' queries_processed
          (updateAgentMetrics ''HR Input Processing'' queries_processed as))"


section \<open>What the handlers answer on success\<close>

text \<open>
  The ticket that the escalation stores for the query \<open>q\<close>, and the body of the successful
  response of \<open>appwriteFunction\<close> and of the simplified handler for the query \<open>q\<close>, the
  context \<open>c\<close> and the synthesized response \<open>r\<close>. These are the values that the definitions
  above compute; the theorems below prove it.
\<close>

definition high_ticket :: "env \<Rightarrow> string \<Rightarrow> ticket" where
  "high_ticket e q =
     \<lparr>ticket_id = ''TICKET-'' @ string_of_nat (Date_now e),
      description = ''Query requires human assistance: '' @ q,
      status = ''open'', priority = ''high'', updates = []\<rparr>"

definition escalated :: "env \<Rightarrow> string \<Rightarrow> bool" where
  "escalated e r \<longleftrightarrow> str_includes (toLowerCase (unicode_lower e) r) ''contact hr''"

definition success_body2 ::
  "env \<Rightarrow> string \<Rightarrow> employee_context \<Rightarrow> string \<Rightarrow> (string \<times> jsvalue) list" where
  "success_body2 e q c r =
     [(''result'', Str r),
      (''category'', Str (HRInputProcessingTool_call_simplified (unicode_lower e) q)),
      (''pinecone_result'', Str (PineconeQueryTool_call2 e (Some q))),
      (''llamaindex_result'', Str (LlamaIndexTool_call2 e (Some q))),
      (''employee_context'', Ctx c),
      (''conversation_history'',
         History [\<lparr>speaker = user, content = Some q\<rparr>,
                  \<lparr>speaker = assistant, content = Some r\<rparr>])]
     @ (if escalated e r
        then [(''ticketId'', Str (''TICKET-'' @ string_of_nat (Date_now e)))] else [])"

definition success_body_simplified :: "env \<Rightarrow> string \<Rightarrow> string \<Rightarrow> (string \<times> jsvalue) list" where
  "success_body_simplified e q r =
     [(''result'', Str r),
      (''category'', Str (HRInputProcessingTool_call_simplified (unicode_lower e) q)),
      (''pinecone_result'', Str (PineconeQueryTool_call2 e (Some q)))]
     @ (if escalated e r
        then [(''ticketId'', Str (''TICKET-'' @ string_of_nat (Date_now e)))] else [])"


section \<open>Environments and requests of the end-to-end scenarios\<close>

definition network_error :: js_error where
  "network_error = JsError ''Error'' ''fetch failed''"

text \<open>
  Two case tables for the scenarios. The first leaves every byte from \<open>0x80\<close> on as it is;
  it agrees with the tables of Unicode on every string that has no letter outside ASCII,
  as all the strings of the scenarios. The second also knows the Kelvin sign \<open>U+212A\<close>,
  whose three bytes become the letter \<open>k\<close>.
\<close>

definition unchanged_table :: unicode_table where
  "unchanged_table s i = [s ! i]"

definition kelvin_sign :: string where
  "kelvin_sign = [CHR 0xE2, CHR 0x84, CHR 0xAA]"

definition kelvin_table :: unicode_table where
  "kelvin_table s i =
     (if take 3 (drop i s) = kelvin_sign then ''k''
      else if take 3 (drop (i - 1) s) = kelvin_sign \<or> take 3 (drop (i - 2) s) = kelvin_sign
        then []
      else [s ! i])"

text \<open>The vector index finds a text, the document index finds nothing, the model answers.\<close>

definition env_found :: env where
  "env_found =
     \<lparr>pinecone_Index = (\<lambda>_. Inr ()),
      embedQuery = (\<lambda>_. Inr [1, 2, 3]),
      index_query = (\<lambda>_. Inr (QueryResponse (Some
         [Match (Some (Metadata (Some ''Employees get 20 days annual leave.'')))]))),
      fromDocuments = Inr 0,
      queryEngine_query = (\<lambda>_ _. Inr ''Empty Response''),
      chain_invoke = (\<lambda>_. Inr ''You have 20 days of annual leave.''),
      setupPinecone = Inr (),
      build_agent = Inr (),
      queryEngine_query2 = (\<lambda>_. Inr ''Empty Response''),
      Date_now = 1718000000000,
      unicode_lower = unchanged_table\<rparr>"

text \<open>Neither index finds anything, and the model suggests to contact HR.\<close>

definition env_not_found :: env where
  "env_not_found =
     env_found
       \<lparr>index_query := (\<lambda>_. Inr (QueryResponse (Some []))),
        chain_invoke := (\<lambda>_. Inr ''I do not have sufficient data. Please contact HR.'')\<rparr>"


text \<open>Neither index finds anything, and the model suggests contacting HR.\<close>

definition env_contacting :: env where
  "env_contacting =
     env_not_found\<lparr>chain_invoke := (\<lambda>_. Inr ''I suggest contacting HR for more details.'')\<rparr>"

text \<open>Both knowledge sources are down.\<close>

definition env_retrievers_down :: env where
  "env_retrievers_down =
     env_not_found
       \<lparr>pinecone_Index := (\<lambda>_. Inl network_error),
        fromDocuments := Inl network_error,
        queryEngine_query := (\<lambda>_ _. Inl network_error),
        queryEngine_query2 := (\<lambda>_. Inl network_error)\<rparr>"

text \<open>The generative backend is down.\<close>

definition env_backend_down :: env where
  "env_backend_down = env_found\<lparr>chain_invoke := (\<lambda>_. Inl (JsError ''Error'' ''quota exceeded''))\<rparr>"

definition sales_manager :: employee_context where
  "sales_manager = \<lparr>department = ''Sales'', role = ''Manager'', tenure = ''3 years''\<rparr>"

definition earlier_exchange :: "history_entry list" where
  "earlier_exchange =
     [\<lparr>speaker = user, content = Some ''Hi''\<rparr>,
      \<lparr>speaker = assistant, content = Some ''Hello''\<rparr>]"

definition leave_state :: state where
  "leave_state =
     \<lparr>query = Some ''Annual leave?'', category = None, pinecone_result = None,
      llamaindex_result = None, employee_context = Some sales_manager,
      conversation_history = Some earlier_exchange, final_response = None\<rparr>"

definition leave_request :: request where
  "leave_request =
     \<lparr>req_method = ''POST'',
      req_body = Some \<lparr>body_query = Some ''Annual leave?'',
                       body_employee_context = Some sales_manager,
                       body_conversation_history = Some earlier_exchange\<rparr>\<rparr>"

text \<open>A request whose body has no query.\<close>

definition no_query_request :: request where
  "no_query_request =
     \<lparr>req_method = ''POST'',
      req_body = Some \<lparr>body_query = None,
                       body_employee_context = Some sales_manager,
                       body_conversation_history = Some earlier_exchange\<rparr>\<rparr>"

definition fresh_tools :: tools where
  "fresh_tools = \<lparr>llama_index = None\<rparr>"

text \<open>The payloads of the second variant: a query that no index knows, the leave query.\<close>

definition unknown_payload :: payload where
  "unknown_payload = \<lparr>payload_query = Some ''asdkjasd'', employeeContext = Some sales_manager\<rparr>"

definition leave_payload :: payload where
  "leave_payload = \<lparr>payload_query = Some ''Annual leave?'', employeeContext = Some sales_manager\<rparr>"

text \<open>The leave query sent without an employee context.\<close>

definition no_context_payload :: payload where
  "no_context_payload = \<lparr>payload_query = Some ''Annual leave?'', employeeContext = None\<rparr>"


section \<open>Theorems\<close>

subsection \<open>Strings\<close>

lemma str_includes_iff: "str_includes s sub \<longleftrightarrow> (\<exists>a b. s = a @ sub @ b)"
proof (induction s)
  case Nil
  then show ?case by auto
next
  case (Cons c cs)
  show ?case
  proof
    assume "str_includes (c # cs) sub"
    then consider "prefix sub (c # cs)" | "str_includes cs sub" by auto
    then show "\<exists>a b. c # cs = a @ sub @ b"
    proof cases
      case 1
      then obtain b where "c # cs = sub @ b" by (auto simp: prefix_def)
      then have "c # cs = [] @ sub @ b" by simp
      then show ?thesis by blast
    next
      case 2
      then obtain a b where "cs = a @ sub @ b" using Cons.IH by auto
      then have "c # cs = (c # a) @ sub @ b" by simp
      then show ?thesis by blast
    qed
  next
    assume "\<exists>a b. c # cs = a @ sub @ b"
    then obtain a b where ab: "c # cs = a @ sub @ b" by auto
    show "str_includes (c # cs) sub"
    proof (cases a)
      case Nil
      then have "prefix sub (c # cs)" using ab by (simp add: prefix_def)
      then show ?thesis by simp
    next
      case (Cons x a')
      then have "cs = a' @ sub @ b" using ab by simp
      then have "str_includes cs sub" using Cons.IH by blast
      then show ?thesis by simp
    qed
  qed
qed

lemma occurs_iff_includes: "occurs U q kw \<longleftrightarrow> str_includes (toLowerCase U q) kw"
  by (simp add: occurs_def str_includes_iff)

lemma upper_case_is_ascii:
  "c \<in> set ''ABCDEFGHIJKLMNOPQRSTUVWXYZ'' \<Longrightarrow> \<not> digit7 c"
  by auto

lemma toLowerCase_char_beyond_ascii: "digit7 c \<Longrightarrow> toLowerCase_char c = c"
proof -
  assume "digit7 c"
  then have "c \<notin> set ''ABCDEFGHIJKLMNOPQRSTUVWXYZ''"
    using upper_case_is_ascii by blast
  then have "map_of (zip ''ABCDEFGHIJKLMNOPQRSTUVWXYZ'' ''abcdefghijklmnopqrstuvwxyz'') c = None"
    by (subst map_of_zip_is_None) simp_all
  then show ?thesis
    by (simp add: toLowerCase_char_def)
qed

lemma lower_from_append:
  "lower_from U s i (a @ b) = lower_from U s i a @ lower_from U s (i + length a) b"
  by (induction a arbitrary: i) simp_all

lemma lower_from_ascii:
  "list_all (\<lambda>c. \<not> digit7 c) w \<Longrightarrow> lower_from U s i w = map toLowerCase_char w"
  by (induction w arbitrary: i) simp_all

text \<open>On a string of ASCII the case tables are not consulted.\<close>

lemma toLowerCase_ascii:
  "list_all (\<lambda>c. \<not> digit7 c) s \<Longrightarrow> toLowerCase U s = map toLowerCase_char s"
  by (simp add: toLowerCase_def lower_from_ascii)

lemma mentions_iff_includes:
  "mentions q kw \<longleftrightarrow> str_includes (map toLowerCase_char q) (map toLowerCase_char kw)"
proof
  assume "mentions q kw"
  then obtain pre w post where "q = pre @ w @ post"
    and "map toLowerCase_char w = map toLowerCase_char kw"
    by (auto simp: mentions_def)
  then have "map toLowerCase_char q
      = map toLowerCase_char pre @ map toLowerCase_char kw @ map toLowerCase_char post"
    by simp
  then show "str_includes (map toLowerCase_char q) (map toLowerCase_char kw)"
    unfolding str_includes_iff by blast
next
  assume "str_includes (map toLowerCase_char q) (map toLowerCase_char kw)"
  then obtain a b where "map toLowerCase_char q = a @ map toLowerCase_char kw @ b"
    by (auto simp: str_includes_iff)
  then have "\<exists>us vs. q = us @ vs \<and> a = map toLowerCase_char us
      \<and> map toLowerCase_char kw @ b = map toLowerCase_char vs"
    by (simp add: map_eq_append_conv)
  then obtain pre rest where q: "q = pre @ rest"
    and r: "map toLowerCase_char rest = map toLowerCase_char kw @ b"
    by metis
  from r have "\<exists>us vs. rest = us @ vs \<and> map toLowerCase_char kw = map toLowerCase_char us
      \<and> b = map toLowerCase_char vs"
    by (simp add: map_eq_append_conv)
  then obtain w post where "rest = w @ post"
    and "map toLowerCase_char w = map toLowerCase_char kw"
    by metis
  with q show "mentions q kw"
    unfolding mentions_def by blast
qed

lemma mentions_occurs:
  assumes lower: "map toLowerCase_char kw = kw"
    and ascii: "list_all (\<lambda>c. \<not> digit7 c) kw"
    and m: "mentions q kw"
  shows "occurs U q kw"
proof -
  from m lower obtain pre w post where q: "q = pre @ w @ post"
    and w: "map toLowerCase_char w = kw"
    by (auto simp: mentions_def)
  have "\<not> digit7 c" if "c \<in> set w" for c
  proof
    assume "digit7 c"
    then have "toLowerCase_char c = c"
      by (rule toLowerCase_char_beyond_ascii)
    with that have "c \<in> set (map toLowerCase_char w)"
      by force
    with w ascii \<open>digit7 c\<close> show False
      by (simp add: list_all_iff)
  qed
  then have "list_all (\<lambda>c. \<not> digit7 c) w"
    by (simp add: list_all_iff)
  then have "lower_from U q (length pre) w = kw"
    using w by (simp add: lower_from_ascii)
  then have "toLowerCase U q
      = lower_from U q 0 pre @ kw @ lower_from U q (length pre + length w) post"
    by (simp add: toLowerCase_def q lower_from_append)
  then show ?thesis
    unfolding occurs_def by blast
qed

lemma keyword_table_plain:
  assumes "kw \<in> set keyword_table"
  shows "map toLowerCase_char kw = kw" and "list_all (\<lambda>c. \<not> digit7 c) kw"
  using assms unfolding keyword_table_def
  by (auto simp: toLowerCase_char_def)

lemma whitespace_unchanged:
  assumes "\<forall>c \<in> set q. is_whitespace c"
  shows "toLowerCase U q = q"
proof -
  have c: "\<not> digit7 c \<and> toLowerCase_char c = c" if "is_whitespace c" for c
    using that unfolding is_whitespace_def
    by (elim insertE emptyE) (simp_all add: toLowerCase_char_def)
  with assms have "list_all (\<lambda>c. \<not> digit7 c) q"
    by (simp add: list_all_iff)
  then have "toLowerCase U q = map toLowerCase_char q"
    by (simp add: toLowerCase_def lower_from_ascii)
  also have "\<dots> = q"
    using assms c by (simp add: map_idI)
  finally show ?thesis .
qed

lemma whitespace_not_includes:
  assumes ws: "\<forall>c \<in> set q. is_whitespace c"
    and kw: "kw \<noteq> []" "\<not> is_whitespace (hd kw)"
  shows "\<not> str_includes (toLowerCase U q) kw"
proof
  assume "str_includes (toLowerCase U q) kw"
  then obtain a b where "q = a @ kw @ b"
    by (auto simp: str_includes_iff whitespace_unchanged [OF ws])
  then have "hd kw \<in> set q"
    using kw(1) by simp
  then show False
    using ws kw(2) by blast
qed

subsection \<open>The classifier\<close>

text \<open>
  C1, as amended. The classifier of the main file maps every query string to exactly one
  of POLICY, LEAVE, COMPENSATION, TRAINING and GENERAL, by case-insensitive substring
  matching where the first rule that matches wins, in the order POLICY, LEAVE,
  COMPENSATION, TRAINING; a query that matches no keyword is GENERAL. The simplified
  classifier of the two other variants has no TRAINING rule: it decides between POLICY,
  LEAVE and COMPENSATION in that order and sends every other query, also one that mentions
  training or development, to GENERAL. In both, a query that contains a keyword in any
  mix of upper and lower case matches it, and a query of whitespace only (the empty one
  too) is GENERAL. All of it holds whatever the case tables of the runtime are.
\<close>

theorem classify_first_match_wins:
  "HRInputProcessingTool_call U q =
     (if occurs U q ''policy'' \<or> occurs U q ''handbook'' then ''POLICY''
      else if occurs U q ''leave'' \<or> occurs U q ''vacation'' then ''LEAVE''
      else if occurs U q ''salary'' \<or> occurs U q ''compensation'' then ''COMPENSATION''
      else if occurs U q ''training'' \<or> occurs U q ''development'' then ''TRAINING''
      else ''GENERAL'')
   \<and> HRInputProcessingTool_call U q
       \<in> {''POLICY'', ''LEAVE'', ''COMPENSATION'', ''TRAINING'', ''GENERAL''}
   \<and> HRInputProcessingTool_call_simplified U q =
     (if occurs U q ''policy'' \<or> occurs U q ''handbook'' then ''POLICY''
      else if occurs U q ''leave'' \<or> occurs U q ''vacation'' then ''LEAVE''
      else if occurs U q ''salary'' \<or> occurs U q ''compensation'' then ''COMPENSATION''
      else ''GENERAL'')
   \<and> (kw \<in> set keyword_table \<and> mentions q kw \<longrightarrow> occurs U q kw)
   \<and> ((\<forall>c \<in> set q. is_whitespace c) \<longrightarrow>
        HRInputProcessingTool_call U q = ''GENERAL''
        \<and> HRInputProcessingTool_call_simplified U q = ''GENERAL'')"
proof -
  have full: "HRInputProcessingTool_call U q =
     (if occurs U q ''policy'' \<or> occurs U q ''handbook'' then ''POLICY''
      else if occurs U q ''leave'' \<or> occurs U q ''vacation'' then ''LEAVE''
      else if occurs U q ''salary'' \<or> occurs U q ''compensation'' then ''COMPENSATION''
      else if occurs U q ''training'' \<or> occurs U q ''development'' then ''TRAINING''
      else ''GENERAL'')"
    unfolding occurs_iff_includes HRInputProcessingTool_call_def Let_def by (rule refl)
  have range: "HRInputProcessingTool_call U q
       \<in> {''POLICY'', ''LEAVE'', ''COMPENSATION'', ''TRAINING'', ''GENERAL''}"
    unfolding HRInputProcessingTool_call_def Let_def by simp
  have simplified: "HRInputProcessingTool_call_simplified U q =
     (if occurs U q ''policy'' \<or> occurs U q ''handbook'' then ''POLICY''
      else if occurs U q ''leave'' \<or> occurs U q ''vacation'' then ''LEAVE''
      else if occurs U q ''salary'' \<or> occurs U q ''compensation'' then ''COMPENSATION''
      else ''GENERAL'')"
    unfolding occurs_iff_includes HRInputProcessingTool_call_simplified_def Let_def
    by (rule refl)
  have any_case: "occurs U q kw" if "kw \<in> set keyword_table \<and> mentions q kw"
    using that keyword_table_plain [of kw] by (blast intro: mentions_occurs)
  have blank: "HRInputProcessingTool_call U q = ''GENERAL''
        \<and> HRInputProcessingTool_call_simplified U q = ''GENERAL''"
    if ws: "\<forall>c \<in> set q. is_whitespace c"
  proof -
    note n = whitespace_not_includes [OF ws]
    have "\<not> str_includes (toLowerCase U q) ''policy''"
      by (rule n) (simp_all add: is_whitespace_def)
    moreover have "\<not> str_includes (toLowerCase U q) ''handbook''"
      by (rule n) (simp_all add: is_whitespace_def)
    moreover have "\<not> str_includes (toLowerCase U q) ''leave''"
      by (rule n) (simp_all add: is_whitespace_def)
    moreover have "\<not> str_includes (toLowerCase U q) ''vacation''"
      by (rule n) (simp_all add: is_whitespace_def)
    moreover have "\<not> str_includes (toLowerCase U q) ''salary''"
      by (rule n) (simp_all add: is_whitespace_def)
    moreover have "\<not> str_includes (toLowerCase U q) ''compensation''"
      by (rule n) (simp_all add: is_whitespace_def)
    moreover have "\<not> str_includes (toLowerCase U q) ''training''"
      by (rule n) (simp_all add: is_whitespace_def)
    moreover have "\<not> str_includes (toLowerCase U q) ''development''"
      by (rule n) (simp_all add: is_whitespace_def)
    ultimately show ?thesis
      unfolding HRInputProcessingTool_call_def HRInputProcessingTool_call_simplified_def Let_def
      by simp
  qed
  show ?thesis
  proof (intro conjI impI)
    show "HRInputProcessingTool_call U q =
     (if occurs U q ''policy'' \<or> occurs U q ''handbook'' then ''POLICY''
      else if occurs U q ''leave'' \<or> occurs U q ''vacation'' then ''LEAVE''
      else if occurs U q ''salary'' \<or> occurs U q ''compensation'' then ''COMPENSATION''
      else if occurs U q ''training'' \<or> occurs U q ''development'' then ''TRAINING''
      else ''GENERAL'')"
      by (rule full)
  qed (use range simplified any_case blank in \<open>blast+\<close>)
qed

lemma mixed_case_examples:
  "mentions ''Where is the HandBook?'' ''handbook''"
  "\<not> mentions (''HANDBOO'' @ kelvin_sign) ''handbook''"
  by (simp_all add: mentions_iff_includes toLowerCase_char_def kelvin_sign_def)

theorem classify_first_match_wins_witness:
  "list_all is_whitespace ''   ''
   \<and> HRInputProcessingTool_call kelvin_table ''   '' = ''GENERAL''
   \<and> HRInputProcessingTool_call_simplified kelvin_table ''   '' = ''GENERAL''
   \<and> HRInputProcessingTool_call kelvin_table [] = ''GENERAL''
   \<and> mentions ''Where is the HandBook?'' ''handbook''
   \<and> HRInputProcessingTool_call kelvin_table ''Where is the HandBook?'' = ''POLICY''"
proof -
  have ws: "\<forall>c \<in> set ''   ''. is_whitespace c"
    by (simp add: is_whitespace_def)
  have e: "\<forall>c \<in> set ([] :: string). is_whitespace c"
    by simp
  have l: "list_all is_whitespace ''   ''"
    by (simp add: is_whitespace_def)
  have k: "''handbook'' \<in> set keyword_table \<and> mentions ''Where is the HandBook?'' ''handbook''"
    by (simp add: keyword_table_def mixed_case_examples)
  note blank = classify_first_match_wins [of kelvin_table "''   ''"]
    classify_first_match_wins [of kelvin_table "[]"]
  note t = classify_first_match_wins [of kelvin_table "''Where is the HandBook?''" "''handbook''"]
  from t k have "occurs kelvin_table ''Where is the HandBook?'' ''handbook''"
    by blast
  with t have "HRInputProcessingTool_call kelvin_table ''Where is the HandBook?'' = ''POLICY''"
    by simp
  with ws e l k blank show ?thesis
    by blast
qed

text \<open>
  The claim as it was stated fails on the simplified classifier: a query about training
  that names no earlier keyword is GENERAL there, not TRAINING.
\<close>

theorem classify_simplified_counterexample:
  "str_includes (toLowerCase unchanged_table ''Which Training courses are open?'') ''training''
   \<and> HRInputProcessingTool_call_simplified unchanged_table ''Which Training courses are open?''
       = ''GENERAL''
   \<and> HRInputProcessingTool_call unchanged_table ''Which Training courses are open?''
       = ''TRAINING''"
  by (simp add: HRInputProcessingTool_call_simplified_def HRInputProcessingTool_call_def
      toLowerCase_def toLowerCase_char_def)

text \<open>
  With case tables that know the Kelvin sign, a query that spells the last letter of
  HANDBOOK with it is POLICY: the classifier folds the case as the runtime does, beyond
  the letters of ASCII.
\<close>

lemma kelvin_handbook:
  "toLowerCase kelvin_table (''HANDBOO'' @ kelvin_sign) = ''handbook''"
  "HRInputProcessingTool_call kelvin_table (''HANDBOO'' @ kelvin_sign) = ''POLICY''"
  by (simp_all add: HRInputProcessingTool_call_def toLowerCase_def toLowerCase_char_def
      kelvin_table_def kelvin_sign_def)

subsection \<open>The run of the workflow\<close>

lemma workflow_path:
  "path_from edges (length edges) entry_point =
     Some [fetch_employee_context, categorize, pinecone_query, llamaindex_query, respond,
           update_conversation_history]"
  by (simp add: edges_def entry_point_def)

lemma workflow_path_simplified:
  "path_from edges_simplified (length edges_simplified) entry_point_simplified =
     Some [categorize, pinecone_query, respond]"
  by (simp add: edges_simplified_def entry_point_simplified_def)

lemma employeeContextNode_id: "employeeContextNode s = Inr s"
  by (simp add: employeeContextNode_def)

lemma invoke_no_query:
  assumes "query s = None"
  shows "invoke e t s =
     \<lparr>visited = [(fetch_employee_context, s), (categorize, s)], shared_after = t,
      outcome = Inl (TypeError ''Cannot read properties of undefined (reading 'toLowerCase')'')\<rparr>"
  using assms
  by (simp add: invoke_def invoke_graph_def workflow_path run_node_def employeeContextNode_id
      categorizeNode_def)

lemma llamaindexNode_eq:
  "llamaindexNode e t s =
     (fst (LlamaIndexTool_call e t (query s)),
      Inr (s\<lparr>llamaindex_result := Some (snd (LlamaIndexTool_call e t (query s)))\<rparr>))"
  by (simp add: llamaindexNode_def split: prod.splits)

lemma invoke_backend_error:
  assumes "query s = Some q" and "chain_invoke e (before_respond e t s q) = Inl err"
  shows "invoke e t s =
     \<lparr>visited =
        [(fetch_employee_context, s), (categorize, s),
         (pinecone_query, s\<lparr>category := Some (HRInputProcessingTool_call (unicode_lower e) q)\<rparr>),
         (llamaindex_query,
            s\<lparr>category := Some (HRInputProcessingTool_call (unicode_lower e) q),
              pinecone_result := Some (PineconeQueryTool_call e (Some q))\<rparr>),
         (respond, before_respond e t s q)],
      shared_after = fst (LlamaIndexTool_call e t (Some q)),
      outcome = Inl err\<rparr>"
  using assms
  by (simp add: invoke_def invoke_graph_def workflow_path run_node_def employeeContextNode_id
      categorizeNode_def pineconeNode_def llamaindexNode_eq responseNode_def
      before_respond_def Let_def)

lemma invoke_backend_ok:
  assumes "query s = Some q" and "chain_invoke e (before_respond e t s q) = Inr r"
  shows "invoke e t s =
     \<lparr>visited =
        [(fetch_employee_context, s), (categorize, s),
         (pinecone_query, s\<lparr>category := Some (HRInputProcessingTool_call (unicode_lower e) q)\<rparr>),
         (llamaindex_query,
            s\<lparr>category := Some (HRInputProcessingTool_call (unicode_lower e) q),
              pinecone_result := Some (PineconeQueryTool_call e (Some q))\<rparr>),
         (respond, before_respond e t s q),
         (update_conversation_history, (before_respond e t s q)\<lparr>final_response := Some r\<rparr>)],
      shared_after = fst (LlamaIndexTool_call e t (Some q)),
      outcome = conversationHistoryNode ((before_respond e t s q)\<lparr>final_response := Some r\<rparr>)\<rparr>"
  using assms
  by (simp add: invoke_def invoke_graph_def workflow_path run_node_def employeeContextNode_id
      categorizeNode_def pineconeNode_def llamaindexNode_eq responseNode_def
      before_respond_def Let_def split: sum.splits)

lemmas scenario_defs =
  env_found_def env_not_found_def env_contacting_def env_retrievers_down_def
  env_backend_down_def
  network_error_def sales_manager_def earlier_exchange_def leave_state_def leave_request_def
  no_query_request_def fresh_tools_def

lemma invoke_cases:
  obtains (no_query) "query s = None"
    | (backend_error) q err where "query s = Some q"
        "chain_invoke e (before_respond e t s q) = Inl err"
    | (backend_ok) q r where "query s = Some q"
        "chain_invoke e (before_respond e t s q) = Inr r"
  by (cases "query s"; cases "chain_invoke e (before_respond e t s (the (query s)))") auto

lemma before_respond_frame:
  "query (before_respond e t s q) = query s"
  "employee_context (before_respond e t s q) = employee_context s"
  "conversation_history (before_respond e t s q) = conversation_history s"
  "final_response (before_respond e t s q) = final_response s"
  "category (before_respond e t s q) = Some (HRInputProcessingTool_call (unicode_lower e) q)"
  "pinecone_result (before_respond e t s q) = Some (PineconeQueryTool_call e (Some q))"
  "llamaindex_result (before_respond e t s q) = Some (snd (LlamaIndexTool_call e t (Some q)))"
  by (simp_all add: before_respond_def)

lemma input_state_fields:
  "query (input_state b) = body_query b"
  "employee_context (input_state b) = body_employee_context b"
  "conversation_history (input_state b) = body_conversation_history b"
  by (simp_all add: input_state_def)

lemma employee_context_copy:
  "\<lparr>department = department c, role = role c, tenure = tenure c\<rparr> = (c :: employee_context)"
  by simp

lemma employeeContextNode2_present:
  "employee_context s = Some c \<Longrightarrow> employeeContextNode2 s = Inr s"
  by (simp add: employeeContextNode2_def)

lemma invoke2_no_context:
  assumes "employee_context s = None"
  shows "invoke2 e as s =
     \<lparr>visited = [(fetch_employee_context, s)], shared_after = as,
      outcome = Inl (TypeError ''Cannot read properties of undefined (reading 'department')'')\<rparr>"
  using assms
  by (simp add: invoke2_def invoke_graph_def workflow_path run_node2_def employeeContextNode2_def)

lemma invoke2_no_query:
  assumes "employee_context s = Some c" and "query s = None"
  shows "invoke2 e as s =
     \<lparr>visited = [(fetch_employee_context, s), (categorize, s)], shared_after = as,
      outcome = Inl (TypeError ''Cannot read properties of undefined (reading 'toLowerCase')'')\<rparr>"
  using assms
  by (simp add: invoke2_def invoke_graph_def workflow_path run_node2_def
      employeeContextNode2_present categorizeNode2_def)

lemma before_respond2_eq:
  "employee_context s = Some c \<Longrightarrow>
     before_respond2 e s q c =
       s\<lparr>category := Some (HRInputProcessingTool_call_simplified (unicode_lower e) q),
         pinecone_result := Some (PineconeQueryTool_call2 e (Some q)),
         llamaindex_result := Some (LlamaIndexTool_call2 e (Some q))\<rparr>"
  by (simp add: before_respond2_def)

lemma invoke2_backend_error:
  assumes "employee_context s = Some c" and "query s = Some q"
    and "chain_invoke e (before_respond2 e s q c) = Inl err"
  shows "invoke2 e as s =
     \<lparr>visited =
        [(fetch_employee_context, s), (categorize, s),
         (pinecone_query, s\<lparr>category := Some (HRInputProcessingTool_call_simplified (unicode_lower e) q)\<rparr>),
         (llamaindex_query,
            s\<lparr>category := Some (HRInputProcessingTool_call_simplified (unicode_lower e) q),
              pinecone_result := Some (PineconeQueryTool_call2 e (Some q))\<rparr>),
         (respond, before_respond2 e s q c)],
      shared_after = counted as,
      outcome = Inl err\<rparr>"
  using assms
  by (simp add: invoke2_def invoke_graph_def workflow_path run_node2_def
      employeeContextNode2_present categorizeNode2_def pineconeNode2_def llamaindexNode2_def
      responseNode_def before_respond2_eq counted_def Let_def)

lemma invoke2_backend_ok:
  assumes "employee_context s = Some c" and "query s = Some q"
    and "chain_invoke e (before_respond2 e s q c) = Inr r"
  shows "invoke2 e as s =
     \<lparr>visited =
        [(fetch_employee_context, s), (categorize, s),
         (pinecone_query, s\<lparr>category := Some (HRInputProcessingTool_call_simplified (unicode_lower e) q)\<rparr>),
         (llamaindex_query,
            s\<lparr>category := Some (HRInputProcessingTool_call_simplified (unicode_lower e) q),
              pinecone_result := Some (PineconeQueryTool_call2 e (Some q))\<rparr>),
         (respond, before_respond2 e s q c),
         (update_conversation_history, (before_respond2 e s q c)\<lparr>final_response := Some r\<rparr>)],
      shared_after = counted as,
      outcome = conversationHistoryNode ((before_respond2 e s q c)\<lparr>final_response := Some r\<rparr>)\<rparr>"
  using assms
  by (simp add: invoke2_def invoke_graph_def workflow_path run_node2_def
      employeeContextNode2_present categorizeNode2_def pineconeNode2_def llamaindexNode2_def
      responseNode_def before_respond2_eq counted_def Let_def split: sum.splits)

lemma invoke2_cases:
  obtains (no_context) "employee_context s = None"
    | (no_query) c where "employee_context s = Some c" "query s = None"
    | (backend_error) c q err where "employee_context s = Some c" "query s = Some q"
        "chain_invoke e (before_respond2 e s q c) = Inl err"
    | (backend_ok) c q r where "employee_context s = Some c" "query s = Some q"
        "chain_invoke e (before_respond2 e s q c) = Inr r"
  by (cases "employee_context s"; cases "query s";
      cases "chain_invoke e (before_respond2 e s (the (query s)) (the (employee_context s)))")
    auto

lemma invoke_simplified_no_query:
  assumes "query s = None"
  shows "invoke_simplified e as s =
     \<lparr>visited = [(categorize, s)], shared_after = as,
      outcome = Inl (TypeError ''Cannot read properties of undefined (reading 'toLowerCase')'')\<rparr>"
  using assms
  by (simp add: invoke_simplified_def invoke_graph_def workflow_path_simplified run_node2_def
      categorizeNode2_def)

lemma invoke_simplified_query:
  assumes "query s = Some q"
  shows "invoke_simplified e as s =
     \<lparr>visited =
        [(categorize, s),
         (pinecone_query, s\<lparr>category := Some (HRInputProcessingTool_call_simplified (unicode_lower e) q)\<rparr>),
         (respond, before_respond_simplified e s q)],
      shared_after =
        updateAgentMetrics ''Pinecone Query'' queries_processed
          (updateAgentMetrics ''HR Input Processing'' queries_processed as),
      outcome = responseNode e (before_respond_simplified e s q)\<rparr>"
  using assms
  by (simp add: invoke_simplified_def invoke_graph_def workflow_path_simplified run_node2_def
      categorizeNode2_def pineconeNode2_def before_respond_simplified_def Let_def
      split: sum.splits)

subsection \<open>The retrievers\<close>

lemma PineconeQueryTool_call_main:
  "PineconeQueryTool_call e q = ''Error retrieving information from Pinecone''"
  by (simp add: PineconeQueryTool_call_def PineconeQueryTool_try_def
      new_HuggingFaceTransformersEmbeddings_def split: sum.splits)

lemma LlamaIndexTool_initialize_throws:
  "LlamaIndexTool_initialize e = Inl (ReferenceError ''Storage is not defined'')"
  by (simp add: LlamaIndexTool_initialize_def fetchDocumentsFromAppwrite_def)

lemma LlamaIndexTool_call_main:
  "llama_index t = None \<Longrightarrow>
     LlamaIndexTool_call e t q = (t, ''Error retrieving information from LlamaIndex'')"
  by (simp add: LlamaIndexTool_call_def LlamaIndexTool_try_def LlamaIndexTool_initialize_throws)

text \<open>
  No call of the tool builds the index: a tool that starts without index, as the one of a
  new agent does, never has one.
\<close>

lemma LlamaIndexTool_index_unchanged:
  "llama_index (fst (LlamaIndexTool_call e t q)) = llama_index t"
  by (simp add: LlamaIndexTool_call_def LlamaIndexTool_try_def LlamaIndexTool_initialize_throws
      split: option.splits sum.splits)







subsection \<open>The handler of the main file\<close>

lemma handler_error:
  assumes "req_method req = ''POST''" and "req_body req = Some b"
    and "initialize e hrCopilot = Inr t"
    and "outcome (invoke e t (input_state b)) = Inl err"
  shows "handler e hrCopilot req =
     \<lparr>response = internal_server_error err,
      hrCopilot_after = Some (shared_after (invoke e t (input_state b))),
      executed = map fst (visited (invoke e t (input_state b)))\<rparr>"
  using assms by (simp add: handler_def Let_def)

lemma handler_success:
  assumes "req_method req = ''POST''" and "req_body req = Some b"
    and "initialize e hrCopilot = Inr t"
    and "outcome (invoke e t (input_state b)) = Inr result"
  shows "handler e hrCopilot req =
     \<lparr>response =
        res_json [(''status'', Num 200), (''message'', Str ''Success''),
                  (''final_response'', of_string (final_response result)),
                  (''category'', of_string (category result))] 200,
      hrCopilot_after = Some (shared_after (invoke e t (input_state b))),
      executed = map fst (visited (invoke e t (input_state b)))\<rparr>"
  using assms by (simp add: handler_def Let_def)



subsection \<open>The history\<close>

lemma conversationHistoryNode_append:
  assumes "conversation_history s = Some h"
  shows "conversationHistoryNode s =
     Inr (s\<lparr>conversation_history :=
            Some (h @ [\<lparr>speaker = user, content = query s\<rparr>,
                       \<lparr>speaker = assistant, content = final_response s\<rparr>])\<rparr>)"
  using assms by (simp add: conversationHistoryNode_def)

text \<open>
  C4. The node that updates the history, given a state that holds a history \<open>h\<close>, returns
  \<open>h\<close> followed by the user's entry with the query and the assistant's entry with the final
  response, and does not throw (both variants of the workflow run this same code). In
  every successful run from a state \<open>s\<close>, the input held a history \<open>h\<close> and a query \<open>q\<close>, the
  final state holds the synthesized response \<open>r\<close>, and its history is \<open>h\<close> followed by those
  two entries: two entries longer, with the entries of \<open>h\<close> unchanged.
\<close>

theorem history_grows_by_two:
  "(conversation_history s = Some h \<longrightarrow>
      conversationHistoryNode s =
        Inr (s\<lparr>conversation_history :=
               Some (h @ [\<lparr>speaker = user, content = query s\<rparr>,
                          \<lparr>speaker = assistant, content = final_response s\<rparr>])\<rparr>))
   \<and> (outcome (invoke e t s) = Inr s' \<longrightarrow>
        (\<exists>h q r h'. conversation_history s = Some h \<and> query s = Some q
           \<and> final_response s' = Some r
           \<and> conversation_history s' = Some h'
           \<and> h' = h @ [\<lparr>speaker = user, content = Some q\<rparr>,
                        \<lparr>speaker = assistant, content = Some r\<rparr>]
           \<and> length h' = length h + 2
           \<and> take (length h) h' = h))"
proof (intro conjI impI)
  assume "conversation_history s = Some h"
  then show "conversationHistoryNode s =
        Inr (s\<lparr>conversation_history :=
               Some (h @ [\<lparr>speaker = user, content = query s\<rparr>,
                          \<lparr>speaker = assistant, content = final_response s\<rparr>])\<rparr>)"
    by (rule conversationHistoryNode_append)
next
  assume ok: "outcome (invoke e t s) = Inr s'"
  show "\<exists>h q r h'. conversation_history s = Some h \<and> query s = Some q
           \<and> final_response s' = Some r
           \<and> conversation_history s' = Some h'
           \<and> h' = h @ [\<lparr>speaker = user, content = Some q\<rparr>,
                        \<lparr>speaker = assistant, content = Some r\<rparr>]
           \<and> length h' = length h + 2
           \<and> take (length h) h' = h"
  proof (cases rule: invoke_cases [where s = s and e = e and t = t])
    case no_query
    then show ?thesis
      using ok by (simp add: invoke_no_query)
  next
    case (backend_error q err)
    then show ?thesis
      using ok by (simp add: invoke_backend_error)
  next
    case (backend_ok q r)
    let ?s5 = "(before_respond e t s q)\<lparr>final_response := Some r\<rparr>"
    from ok have node: "conversationHistoryNode ?s5 = Inr s'"
      by (simp add: invoke_backend_ok [OF backend_ok])
    then obtain h where h: "conversation_history s = Some h"
      by (cases "conversation_history s")
        (simp_all add: conversationHistoryNode_def before_respond_frame)
    then have "conversation_history ?s5 = Some h"
      by (simp add: before_respond_frame)
    from conversationHistoryNode_append [OF this] node
    have "s' = ?s5\<lparr>conversation_history :=
               Some (h @ [\<lparr>speaker = user, content = query ?s5\<rparr>,
                          \<lparr>speaker = assistant, content = final_response ?s5\<rparr>])\<rparr>"
      by simp
    then have "final_response s' = Some r"
      and "conversation_history s' = Some (h @ [\<lparr>speaker = user, content = Some q\<rparr>,
                        \<lparr>speaker = assistant, content = Some r\<rparr>])"
      using backend_ok(1) by (simp_all add: before_respond_frame)
    with h backend_ok(1) show ?thesis
      by simp
  qed
qed

theorem history_grows_by_two_witness:
  "conversation_history leave_state = Some earlier_exchange
   \<and> outcome (invoke env_found fresh_tools leave_state) =
       Inr ((before_respond env_found fresh_tools leave_state ''Annual leave?'')
              \<lparr>conversation_history :=
                 Some [\<lparr>speaker = user, content = Some ''Hi''\<rparr>,
                       \<lparr>speaker = assistant, content = Some ''Hello''\<rparr>,
                       \<lparr>speaker = user, content = Some ''Annual leave?''\<rparr>,
                       \<lparr>speaker = assistant,
                        content = Some ''You have 20 days of annual leave.''\<rparr>],
               final_response := Some ''You have 20 days of annual leave.''\<rparr>)
   \<and> conversationHistoryNode leave_state =
        Inr (leave_state\<lparr>conversation_history :=
               Some [\<lparr>speaker = user, content = Some ''Hi''\<rparr>,
                     \<lparr>speaker = assistant, content = Some ''Hello''\<rparr>,
                     \<lparr>speaker = user, content = Some ''Annual leave?''\<rparr>,
                     \<lparr>speaker = assistant, content = None\<rparr>]\<rparr>)"
proof -
  have h: "conversation_history leave_state = Some earlier_exchange"
    by (simp add: leave_state_def)
  have q: "query leave_state = Some ''Annual leave?''"
    by (simp add: leave_state_def)
  have ok: "chain_invoke env_found (before_respond env_found fresh_tools leave_state
       ''Annual leave?'') = Inr ''You have 20 days of annual leave.''"
    by (simp add: env_found_def)
  have run: "outcome (invoke env_found fresh_tools leave_state) =
       Inr ((before_respond env_found fresh_tools leave_state ''Annual leave?'')
              \<lparr>conversation_history :=
                 Some [\<lparr>speaker = user, content = Some ''Hi''\<rparr>,
                       \<lparr>speaker = assistant, content = Some ''Hello''\<rparr>,
                       \<lparr>speaker = user, content = Some ''Annual leave?''\<rparr>,
                       \<lparr>speaker = assistant,
                        content = Some ''You have 20 days of annual leave.''\<rparr>],
               final_response := Some ''You have 20 days of annual leave.''\<rparr>)"
    by (simp add: invoke_backend_ok [OF q ok] conversationHistoryNode_def before_respond_frame
        h q earlier_exchange_def)
  show ?thesis
    using h run
      history_grows_by_two [of leave_state earlier_exchange env_found fresh_tools]
    by (simp add: leave_state_def earlier_exchange_def)
qed

subsection \<open>The retrieval phase\<close>

text \<open>
  C5. In every run, whatever the retrievers met, a state that is given to the response
  node holds both retrieval results, each a string: the result of the Pinecone retriever
  and the result of the LlamaIndex retriever for the query of the run. The nodes are
  executed in the order of the graph, the Pinecone query before the LlamaIndex query and
  both before the response; a run with a query executes all of them. (The code keeps the
  results in the two channels \<open>pinecone_result\<close> and \<open>llamaindex_result\<close>; it has no list of
  retrieved results.)
\<close>

theorem retrieval_complete_before_synthesis:
  "list_all (\<lambda>(n, s'). n = respond \<longrightarrow>
        pinecone_result s' = Some (PineconeQueryTool_call e (query s))
        \<and> llamaindex_result s' = Some (snd (LlamaIndexTool_call e t (query s))))
     (visited (invoke e t s))
   \<and> prefix (map fst (visited (invoke e t s)))
        [fetch_employee_context, categorize, pinecone_query, llamaindex_query, respond,
         update_conversation_history]
   \<and> (query s \<noteq> None \<longrightarrow>
        prefix [fetch_employee_context, categorize, pinecone_query, llamaindex_query, respond]
          (map fst (visited (invoke e t s))))"
proof (cases rule: invoke_cases [where s = s and e = e and t = t])
  case no_query
  then show ?thesis
    by (simp add: invoke_no_query)
next
  case (backend_error q err)
  then show ?thesis
    by (simp add: invoke_backend_error before_respond_frame)
next
  case (backend_ok q r)
  then show ?thesis
    by (simp add: invoke_backend_ok before_respond_frame)
qed

theorem retrieval_complete_before_synthesis_witness:
  "query leave_state \<noteq> None
   \<and> map fst (visited (invoke env_retrievers_down fresh_tools leave_state)) =
       [fetch_employee_context, categorize, pinecone_query, llamaindex_query, respond,
        update_conversation_history]
   \<and> list_all (\<lambda>(n, s'). n = respond \<longrightarrow>
        pinecone_result s' = Some ''Error retrieving information from Pinecone''
        \<and> llamaindex_result s' = Some ''Error retrieving information from LlamaIndex'')
     (visited (invoke env_retrievers_down fresh_tools leave_state))"
proof -
  have q: "query leave_state = Some ''Annual leave?''"
    by (simp add: leave_state_def)
  have ok: "chain_invoke env_retrievers_down (before_respond env_retrievers_down fresh_tools
       leave_state ''Annual leave?'') = Inr ''I do not have sufficient data. Please contact HR.''"
    by (simp add: scenario_defs)
  have p: "PineconeQueryTool_call env_retrievers_down (Some ''Annual leave?'')
      = ''Error retrieving information from Pinecone''"
    by (rule PineconeQueryTool_call_main)
  have l: "snd (LlamaIndexTool_call env_retrievers_down fresh_tools (Some ''Annual leave?''))
      = ''Error retrieving information from LlamaIndex''"
    by (simp add: LlamaIndexTool_call_main fresh_tools_def)
  have v: "map fst (visited (invoke env_retrievers_down fresh_tools leave_state)) =
       [fetch_employee_context, categorize, pinecone_query, llamaindex_query, respond,
        update_conversation_history]"
    by (simp add: invoke_backend_ok [OF q ok])
  show ?thesis
    using v retrieval_complete_before_synthesis [of env_retrievers_down leave_state fresh_tools]
    by (simp add: q p l)
qed

subsection \<open>Input errors\<close>

text \<open>
  C6, as amended. A request whose method is not POST is answered at once with status 405,
  for every environment: the agent is not built and no node is executed, so no retriever
  and no generative backend is called. A POST request whose body has no query is not
  refused before the run: the first two nodes are executed, the categorize node throws on
  the missing query, and the handler answers with status 500 and the message of that
  error; no retriever and no generative backend is called.
\<close>

theorem input_errors:
  "(req_method req \<noteq> ''POST'' \<longrightarrow>
      handler e hrCopilot req =
        \<lparr>response = \<lparr>status_code = 405,
                     body = [(''status'', Num 405), (''message'', Str ''Method Not Allowed'')]\<rparr>,
         hrCopilot_after = hrCopilot, executed = []\<rparr>)
   \<and> (req_method req = ''POST'' \<and> initialize e hrCopilot = Inr t \<and> req_body req = Some b
        \<and> body_query b = None \<longrightarrow>
      response (handler e hrCopilot req) =
        \<lparr>status_code = 500,
         body = [(''status'', Num 500), (''message'', Str ''Internal Server Error''),
                 (''error'', Str ''Cannot read properties of undefined (reading 'toLowerCase')'')]\<rparr>
      \<and> executed (handler e hrCopilot req) = [fetch_employee_context, categorize])"
proof (rule conjI; rule impI)
  assume "req_method req \<noteq> ''POST''"
  then show "handler e hrCopilot req =
        \<lparr>response = \<lparr>status_code = 405,
                     body = [(''status'', Num 405), (''message'', Str ''Method Not Allowed'')]\<rparr>,
         hrCopilot_after = hrCopilot, executed = []\<rparr>"
    by (simp add: handler_def res_json_def)
next
  assume a: "req_method req = ''POST'' \<and> initialize e hrCopilot = Inr t \<and> req_body req = Some b
        \<and> body_query b = None"
  then have run: "invoke e t (input_state b) =
     \<lparr>visited = [(fetch_employee_context, input_state b), (categorize, input_state b)],
      shared_after = t,
      outcome = Inl (TypeError ''Cannot read properties of undefined (reading 'toLowerCase')'')\<rparr>"
    by (simp add: invoke_no_query input_state_fields)
  then have err: "outcome (invoke e t (input_state b)) =
      Inl (TypeError ''Cannot read properties of undefined (reading 'toLowerCase')'')"
    by simp
  from a have h: "handler e hrCopilot req =
     \<lparr>response = internal_server_error
         (TypeError ''Cannot read properties of undefined (reading 'toLowerCase')''),
      hrCopilot_after = Some (shared_after (invoke e t (input_state b))),
      executed = map fst (visited (invoke e t (input_state b)))\<rparr>"
    by (intro handler_error [OF _ _ _ err]) simp_all
  show "response (handler e hrCopilot req) =
        \<lparr>status_code = 500,
         body = [(''status'', Num 500), (''message'', Str ''Internal Server Error''),
                 (''error'', Str ''Cannot read properties of undefined (reading 'toLowerCase')'')]\<rparr>
      \<and> executed (handler e hrCopilot req) = [fetch_employee_context, categorize]"
    unfolding h by (simp add: run internal_server_error_def res_json_def TypeError_def)
qed

theorem input_errors_witness:
  "req_method (leave_request\<lparr>req_method := ''GET''\<rparr>) \<noteq> ''POST''
   \<and> handler env_found None (leave_request\<lparr>req_method := ''GET''\<rparr>) =
        \<lparr>response = \<lparr>status_code = 405,
                     body = [(''status'', Num 405), (''message'', Str ''Method Not Allowed'')]\<rparr>,
         hrCopilot_after = None, executed = []\<rparr>
   \<and> status_code (response (handler env_found None no_query_request)) = 500
   \<and> executed (handler env_found None no_query_request) = [fetch_employee_context, categorize]"
proof -
  have g: "req_method (leave_request\<lparr>req_method := ''GET''\<rparr>) \<noteq> ''POST''"
    by simp
  have p: "req_method no_query_request = ''POST''
      \<and> initialize env_found None = Inr fresh_tools
      \<and> req_body no_query_request =
          Some \<lparr>body_query = None, body_employee_context = Some sales_manager,
                body_conversation_history = Some earlier_exchange\<rparr>
      \<and> body_query \<lparr>body_query = None, body_employee_context = Some sales_manager,
                body_conversation_history = Some earlier_exchange\<rparr> = None"
    by (simp add: no_query_request_def initialize_def env_found_def fresh_tools_def)
  show ?thesis
    using g p input_errors [of "leave_request\<lparr>req_method := ''GET''\<rparr>" env_found None]
      input_errors [of no_query_request env_found None fresh_tools
        "\<lparr>body_query = None, body_employee_context = Some sales_manager,
          body_conversation_history = Some earlier_exchange\<rparr>"]
    by simp
qed

text \<open>
  The claim as it was stated fails on a POST request without a query: the status is 500,
  not one of the 4xx family, and the run has started.
\<close>

theorem missing_query_counterexample:
  "req_method no_query_request = ''POST''
   \<and> map_option body_query (req_body no_query_request) = Some None
   \<and> status_code (response (handler env_found None no_query_request)) = 500
   \<and> executed (handler env_found None no_query_request) = [fetch_employee_context, categorize]"
  by (simp add: no_query_request_def handler_def initialize_def env_found_def invoke_no_query
      input_state_def internal_server_error_def res_json_def)

subsection \<open>What the handlers answer\<close>

lemma escalate_eq:
  assumes "final_response result = Some r"
  shows "escalate e (Some q) result Map.empty =
     Inr (if escalated e r
          then (Some (''TICKET-'' @ string_of_nat (Date_now e)),
                [''TICKET-'' @ string_of_nat (Date_now e) \<mapsto> high_ticket e q])
          else (None, Map.empty))"
  using assms by (simp add: escalate_def createTicket_def high_ticket_def escalated_def Let_def)

lemma processing_error_status: "status_code (processing_error err) = 500"
  by (simp add: processing_error_def res_json_def)

lemma appwriteFunction_success:
  assumes pine: "setupPinecone e = Inr u" and build: "build_agent e = Inr v"
    and c: "employeeContext p = Some c" and q: "payload_query p = Some q"
    and r: "chain_invoke e (before_respond2 e (input_state2 p) q c) = Inr r"
  shows "appwriteFunction e (Inr p) =
     Inr \<lparr>response2 = \<lparr>status_code = 200, body = success_body2 e q c r\<rparr>,
          tickets_after =
            (if escalated e r
             then [''TICKET-'' @ string_of_nat (Date_now e) \<mapsto> high_ticket e q]
             else Map.empty),
          agents_after = counted new_agents,
          executed2 = [fetch_employee_context, categorize, pinecone_query, llamaindex_query,
                       respond, update_conversation_history]\<rparr>"
proof -
  have c': "employee_context (input_state2 p) = Some c"
    and q': "query (input_state2 p) = Some q"
    using c q by (simp_all add: input_state2_def)
  note run = invoke2_backend_ok [OF c' q' r]
  let ?s5 = "(before_respond2 e (input_state2 p) q c)\<lparr>final_response := Some r\<rparr>"
  let ?s6 = "?s5\<lparr>conversation_history :=
     Some [\<lparr>speaker = user, content = Some q\<rparr>, \<lparr>speaker = assistant, content = Some r\<rparr>]\<rparr>"
  have node: "conversationHistoryNode ?s5 = Inr ?s6"
    by (simp add: conversationHistoryNode_def before_respond2_def input_state2_def q)
  have out: "outcome (invoke2 e new_agents (input_state2 p)) = Inr ?s6"
    by (simp add: run node)
  have fr: "final_response ?s6 = Some r"
    by simp
  have fields: "category ?s6 = Some (HRInputProcessingTool_call_simplified (unicode_lower e) q)"
    "pinecone_result ?s6 = Some (PineconeQueryTool_call2 e (Some q))"
    "llamaindex_result ?s6 = Some (LlamaIndexTool_call2 e (Some q))"
    "employee_context ?s6 = Some c"
    "conversation_history ?s6 =
       Some [\<lparr>speaker = user, content = Some q\<rparr>, \<lparr>speaker = assistant, content = Some r\<rparr>]"
    by (simp_all add: before_respond2_def)
  have vis: "map fst (visited (invoke2 e new_agents (input_state2 p))) =
      [fetch_employee_context, categorize, pinecone_query, llamaindex_query, respond,
       update_conversation_history]"
    and sh: "shared_after (invoke2 e new_agents (input_state2 p)) = counted new_agents"
    by (simp_all add: run)
  show ?thesis
    unfolding appwriteFunction_def
    by (simp add: pine build out vis sh q Let_def escalate_eq [OF fr] fields
      res_json_def of_string_def of_context_def of_history_def success_body2_def)
qed

lemma appwriteFunction_200:
  assumes h: "appwriteFunction e pl = Inr h" and ok: "status_code (response2 h) = 200"
  obtains p c q r where "pl = Inr p" "employeeContext p = Some c" "payload_query p = Some q"
    "chain_invoke e (before_respond2 e (input_state2 p) q c) = Inr r"
    "setupPinecone e = Inr ()" "build_agent e = Inr ()"
proof -
  from h have pine: "setupPinecone e = Inr ()"
    by (cases "setupPinecone e") (simp_all add: appwriteFunction_def)
  from h ok pine have build: "build_agent e = Inr ()"
    by (cases "build_agent e") (auto simp: appwriteFunction_def processing_error_status)
  from h ok pine build obtain p where p: "pl = Inr p"
    by (cases pl) (auto simp: appwriteFunction_def processing_error_status)
  show ?thesis
  proof (cases rule: invoke2_cases [where s = "input_state2 p" and e = e])
    case no_context
    from h ok show ?thesis
      by (auto simp: appwriteFunction_def pine build p invoke2_no_context [OF no_context]
          processing_error_status)
  next
    case (no_query c)
    from h ok show ?thesis
      by (auto simp: appwriteFunction_def pine build p invoke2_no_query [OF no_query]
          processing_error_status)
  next
    case (backend_error c q err)
    from h ok show ?thesis
      by (auto simp: appwriteFunction_def pine build p invoke2_backend_error [OF backend_error]
          processing_error_status)
  next
    case (backend_ok c q r)
    then have "employeeContext p = Some c" "payload_query p = Some q"
      by (simp_all add: input_state2_def)
    with backend_ok(3) p pine build show ?thesis
      by (rule_tac that) auto
  qed
qed

lemma handler_simplified_success:
  assumes pine: "setupPinecone e = Inr u" and build: "build_agent e = Inr v"
    and q: "payload_query p = Some q"
    and r: "chain_invoke e (before_respond_simplified e (input_state_simplified p) q) = Inr r"
  shows "handler_simplified e (Inr p) =
     Inr \<lparr>response2 = \<lparr>status_code = 200, body = success_body_simplified e q r\<rparr>,
          tickets_after =
            (if escalated e r
             then [''TICKET-'' @ string_of_nat (Date_now e) \<mapsto> high_ticket e q]
             else Map.empty),
          agents_after =
            updateAgentMetrics ''Pinecone Query'' queries_processed
              (updateAgentMetrics ''HR Input Processing'' queries_processed
                 new_agents_simplified),
          executed2 = [categorize, pinecone_query, respond]\<rparr>"
proof -
  have q': "query (input_state_simplified p) = Some q"
    using q by (simp add: input_state_simplified_def)
  note run = invoke_simplified_query [OF q']
  let ?s3 = "(before_respond_simplified e (input_state_simplified p) q)\<lparr>final_response := Some r\<rparr>"
  have out: "outcome (invoke_simplified e new_agents_simplified (input_state_simplified p))
      = Inr ?s3"
    by (simp add: run responseNode_def r)
  have fr: "final_response ?s3 = Some r"
    by simp
  have fields: "category ?s3 = Some (HRInputProcessingTool_call_simplified (unicode_lower e) q)"
    "pinecone_result ?s3 = Some (PineconeQueryTool_call2 e (Some q))"
    by (simp_all add: before_respond_simplified_def)
  have vis: "map fst (visited (invoke_simplified e new_agents_simplified
        (input_state_simplified p))) = [categorize, pinecone_query, respond]"
    and sh: "shared_after (invoke_simplified e new_agents_simplified (input_state_simplified p))
      = updateAgentMetrics ''Pinecone Query'' queries_processed
          (updateAgentMetrics ''HR Input Processing'' queries_processed new_agents_simplified)"
    by (simp_all add: run)
  show ?thesis
    unfolding handler_simplified_def
    by (simp add: pine build out vis sh q Let_def escalate_eq [OF fr] fields
      res_json_def of_string_def success_body_simplified_def)
qed

lemma handler_simplified_200:
  assumes h: "handler_simplified e pl = Inr h" and ok: "status_code (response2 h) = 200"
  obtains p q r where "pl = Inr p" "payload_query p = Some q"
    "chain_invoke e (before_respond_simplified e (input_state_simplified p) q) = Inr r"
    "setupPinecone e = Inr ()" "build_agent e = Inr ()"
proof -
  from h have pine: "setupPinecone e = Inr ()"
    by (cases "setupPinecone e") (simp_all add: handler_simplified_def)
  from h ok pine have build: "build_agent e = Inr ()"
    by (cases "build_agent e") (auto simp: handler_simplified_def processing_error_status)
  from h ok pine build obtain p where p: "pl = Inr p"
    by (cases pl) (auto simp: handler_simplified_def processing_error_status)
  show ?thesis
  proof (cases "query (input_state_simplified p)")
    case None
    from h ok show ?thesis
      by (auto simp: handler_simplified_def pine build p invoke_simplified_no_query [OF None]
          processing_error_status)
  next
    case (Some q)
    note run = invoke_simplified_query [OF Some]
    show ?thesis
    proof (cases "chain_invoke e (before_respond_simplified e (input_state_simplified p) q)")
      case (Inl err)
      from h ok show ?thesis
        by (auto simp: handler_simplified_def pine build p run responseNode_def Inl
            processing_error_status)
    next
      case (Inr r)
      from Some have "payload_query p = Some q"
        by (simp add: input_state_simplified_def)
      with Inr p pine build show ?thesis
        by (rule_tac that) auto
    qed
  qed
qed

lemma success_body2_lookup:
  "map_of (success_body2 e q c r) ''result'' = Some (Str r)"
  "map_of (success_body2 e q c r) ''ticketId'' =
     (if escalated e r then Some (Str (''TICKET-'' @ string_of_nat (Date_now e))) else None)"
  by (simp_all add: success_body2_def)

lemma success_body_simplified_lookup:
  "map_of (success_body_simplified e q r) ''result'' = Some (Str r)"
  "map_of (success_body_simplified e q r) ''ticketId'' =
     (if escalated e r then Some (Str (''TICKET-'' @ string_of_nat (Date_now e))) else None)"
  by (simp_all add: success_body_simplified_def)

lemma internal_server_error_status: "status_code (internal_server_error err) = 500"
  by (simp add: internal_server_error_def res_json_def)

lemma handler_200:
  assumes ok: "status_code (response (handler e hrCopilot req)) = 200"
  obtains t b q r h where "req_method req = ''POST''" "initialize e hrCopilot = Inr t"
    "req_body req = Some b" "body_query b = Some q"
    "chain_invoke e (before_respond e t (input_state b) q) = Inr r"
    "body_conversation_history b = Some h"
proof -
  from ok have post: "req_method req = ''POST''"
    by (cases "req_method req = ''POST''") (simp_all add: handler_def res_json_def)
  from ok post obtain t where t: "initialize e hrCopilot = Inr t"
    by (cases "initialize e hrCopilot")
      (simp_all add: handler_def internal_server_error_status)
  from ok post t obtain b where b: "req_body req = Some b"
    by (cases "req_body req") (simp_all add: handler_def internal_server_error_status)
  show ?thesis
  proof (cases rule: invoke_cases [where s = "input_state b" and e = e and t = t])
    case no_query
    have "outcome (invoke e t (input_state b)) =
        Inl (TypeError ''Cannot read properties of undefined (reading 'toLowerCase')'')"
      by (simp add: invoke_no_query [OF no_query])
    from handler_error [OF post b t this] ok show ?thesis
      by (simp add: internal_server_error_status)
  next
    case (backend_error q err)
    have "outcome (invoke e t (input_state b)) = Inl err"
      by (simp add: invoke_backend_error [OF backend_error])
    from handler_error [OF post b t this] ok show ?thesis
      by (simp add: internal_server_error_status)
  next
    case (backend_ok q r)
    show ?thesis
    proof (cases "body_conversation_history b")
      case None
      have "outcome (invoke e t (input_state b)) =
          Inl (TypeError ''state.conversation_history is not iterable'')"
        by (simp add: invoke_backend_ok [OF backend_ok] conversationHistoryNode_def
            before_respond_frame input_state_fields None)
      from handler_error [OF post b t this] ok show ?thesis
        by (simp add: internal_server_error_status)
    next
      case (Some h)
      from backend_ok(1) have "body_query b = Some q"
        by (simp add: input_state_fields)
      with post t b backend_ok(2) Some show ?thesis
        by (rule_tac that)
    qed
  qed
qed

lemma handler_response_200:
  assumes post: "req_method req = ''POST''" and t: "initialize e hrCopilot = Inr t"
    and b: "req_body req = Some b" and q: "body_query b = Some q"
    and r: "chain_invoke e (before_respond e t (input_state b) q) = Inr r"
    and h: "body_conversation_history b = Some h"
  shows "response (handler e hrCopilot req) =
     \<lparr>status_code = 200,
      body = [(''status'', Num 200), (''message'', Str ''Success''),
              (''final_response'', Str r),
              (''category'', Str (HRInputProcessingTool_call (unicode_lower e) q))]\<rparr>"
proof -
  have q': "query (input_state b) = Some q"
    using q by (simp add: input_state_fields)
  let ?s5 = "(before_respond e t (input_state b) q)\<lparr>final_response := Some r\<rparr>"
  let ?s6 = "?s5\<lparr>conversation_history :=
     Some (h @ [\<lparr>speaker = user, content = Some q\<rparr>,
                \<lparr>speaker = assistant, content = Some r\<rparr>])\<rparr>"
  have "conversationHistoryNode ?s5 = Inr ?s6"
    by (simp add: conversationHistoryNode_def before_respond_frame input_state_fields h q)
  then have out: "outcome (invoke e t (input_state b)) = Inr ?s6"
    by (simp add: invoke_backend_ok [OF q' r])
  show ?thesis
    unfolding handler_success [OF post b t out]
    by (simp add: res_json_def of_string_def before_respond_frame)
qed

lemma clock_digits: "string_of_nat 1718000000000 = ''1718000000000''"
  by (simp add: string_of_nat.simps)

subsection \<open>The runs of the scenarios\<close>

lemma scenario_categories:
  "HRInputProcessingTool_call unchanged_table ''Annual leave?'' = ''LEAVE''"
  "HRInputProcessingTool_call_simplified unchanged_table ''Annual leave?'' = ''LEAVE''"
  "HRInputProcessingTool_call_simplified unchanged_table ''asdkjasd'' = ''GENERAL''"
  by (simp_all add: HRInputProcessingTool_call_def HRInputProcessingTool_call_simplified_def
      toLowerCase_def toLowerCase_char_def)

lemma contact_hr_marker:
  "str_includes (toLowerCase unchanged_table
     ''I do not have sufficient data. Please contact HR.'') ''contact hr''"
  "\<not> str_includes (toLowerCase unchanged_table ''You have 20 days of annual leave.'')
     ''contact hr''"
  "\<not> str_includes (toLowerCase unchanged_table ''I suggest contacting HR for more details.'')
     ''contact hr''"
  by (simp_all add: toLowerCase_def toLowerCase_char_def)

lemma scenario_tables:
  "unicode_lower env_found = unchanged_table"
  "unicode_lower env_not_found = unchanged_table"
  "unicode_lower env_contacting = unchanged_table"
  "Date_now env_found = 1718000000000"
  "Date_now env_not_found = 1718000000000"
  "Date_now env_contacting = 1718000000000"
  by (simp_all add: scenario_defs)

lemma scenario_retrievers:
  "PineconeQueryTool_call2 env_found (Some ''Annual leave?'')
     = ''Employees get 20 days annual leave.''"
  "LlamaIndexTool_call2 env_found (Some ''Annual leave?'') = ''Empty Response''"
  "PineconeQueryTool_call2 env_not_found (Some ''asdkjasd'') = ''No relevant information found.''"
  "LlamaIndexTool_call2 env_not_found (Some ''asdkjasd'') = ''Empty Response''"
  "PineconeQueryTool_call2 env_contacting (Some ''asdkjasd'') = ''No relevant information found.''"
  "LlamaIndexTool_call2 env_contacting (Some ''asdkjasd'') = ''Empty Response''"
  by (simp_all add: PineconeQueryTool_call2_def queryPinecone_def queryPinecone_try_def
      pinecone_lookup_def first_match_text_def or_default_def LlamaIndexTool_call2_def
      scenario_defs)

lemmas scenario_values =
  scenario_categories contact_hr_marker scenario_tables scenario_retrievers clock_digits
  success_body2_def success_body_simplified_def escalated_def high_ticket_def

lemma unknown_run:
  "appwriteFunction env_not_found (Inr unknown_payload) =
     Inr \<lparr>response2 =
            \<lparr>status_code = 200,
             body = [(''result'', Str ''I do not have sufficient data. Please contact HR.''),
                     (''category'', Str ''GENERAL''),
                     (''pinecone_result'', Str ''No relevant information found.''),
                     (''llamaindex_result'', Str ''Empty Response''),
                     (''employee_context'', Ctx sales_manager),
                     (''conversation_history'',
                        History [\<lparr>speaker = user, content = Some ''asdkjasd''\<rparr>,
                                 \<lparr>speaker = assistant,
                                  content = Some ''I do not have sufficient data. Please contact HR.''\<rparr>]),
                     (''ticketId'', Str ''TICKET-1718000000000'')]\<rparr>,
          tickets_after =
            [''TICKET-1718000000000'' \<mapsto>
               \<lparr>ticket_id = ''TICKET-1718000000000'',
                description = ''Query requires human assistance: asdkjasd'',
                status = ''open'', priority = ''high'', updates = []\<rparr>],
          agents_after = counted new_agents,
          executed2 = [fetch_employee_context, categorize, pinecone_query, llamaindex_query,
                       respond, update_conversation_history]\<rparr>"
proof -
  have "appwriteFunction env_not_found (Inr unknown_payload) =
     Inr \<lparr>response2 = \<lparr>status_code = 200,
            body = success_body2 env_not_found ''asdkjasd'' sales_manager
                     ''I do not have sufficient data. Please contact HR.''\<rparr>,
          tickets_after =
            (if escalated env_not_found ''I do not have sufficient data. Please contact HR.''
             then [''TICKET-'' @ string_of_nat (Date_now env_not_found) \<mapsto>
                     high_ticket env_not_found ''asdkjasd'']
             else Map.empty),
          agents_after = counted new_agents,
          executed2 = [fetch_employee_context, categorize, pinecone_query, llamaindex_query,
                       respond, update_conversation_history]\<rparr>"
    by (rule appwriteFunction_success [where u = "()" and v = "()"])
      (simp_all add: unknown_payload_def env_not_found_def env_found_def)
  then show ?thesis
    by (simp add: scenario_values)
qed

lemma contacting_run:
  "appwriteFunction env_contacting (Inr unknown_payload) =
     Inr \<lparr>response2 =
            \<lparr>status_code = 200,
             body = [(''result'', Str ''I suggest contacting HR for more details.''),
                     (''category'', Str ''GENERAL''),
                     (''pinecone_result'', Str ''No relevant information found.''),
                     (''llamaindex_result'', Str ''Empty Response''),
                     (''employee_context'', Ctx sales_manager),
                     (''conversation_history'',
                        History [\<lparr>speaker = user, content = Some ''asdkjasd''\<rparr>,
                                 \<lparr>speaker = assistant,
                                  content = Some ''I suggest contacting HR for more details.''\<rparr>])]\<rparr>,
          tickets_after = Map.empty,
          agents_after = counted new_agents,
          executed2 = [fetch_employee_context, categorize, pinecone_query, llamaindex_query,
                       respond, update_conversation_history]\<rparr>"
proof -
  have "appwriteFunction env_contacting (Inr unknown_payload) =
     Inr \<lparr>response2 = \<lparr>status_code = 200,
            body = success_body2 env_contacting ''asdkjasd'' sales_manager
                     ''I suggest contacting HR for more details.''\<rparr>,
          tickets_after =
            (if escalated env_contacting ''I suggest contacting HR for more details.''
             then [''TICKET-'' @ string_of_nat (Date_now env_contacting) \<mapsto>
                     high_ticket env_contacting ''asdkjasd'']
             else Map.empty),
          agents_after = counted new_agents,
          executed2 = [fetch_employee_context, categorize, pinecone_query, llamaindex_query,
                       respond, update_conversation_history]\<rparr>"
    by (rule appwriteFunction_success [where u = "()" and v = "()"])
      (simp_all add: unknown_payload_def env_contacting_def env_not_found_def env_found_def)
  then show ?thesis
    by (simp add: scenario_values)
qed

lemma leave_run:
  "appwriteFunction env_found (Inr leave_payload) =
     Inr \<lparr>response2 =
            \<lparr>status_code = 200,
             body = [(''result'', Str ''You have 20 days of annual leave.''),
                     (''category'', Str ''LEAVE''),
                     (''pinecone_result'', Str ''Employees get 20 days annual leave.''),
                     (''llamaindex_result'', Str ''Empty Response''),
                     (''employee_context'', Ctx sales_manager),
                     (''conversation_history'',
                        History [\<lparr>speaker = user, content = Some ''Annual leave?''\<rparr>,
                                 \<lparr>speaker = assistant,
                                  content = Some ''You have 20 days of annual leave.''\<rparr>])]\<rparr>,
          tickets_after = Map.empty,
          agents_after = counted new_agents,
          executed2 = [fetch_employee_context, categorize, pinecone_query, llamaindex_query,
                       respond, update_conversation_history]\<rparr>"
proof -
  have "appwriteFunction env_found (Inr leave_payload) =
     Inr \<lparr>response2 = \<lparr>status_code = 200,
            body = success_body2 env_found ''Annual leave?'' sales_manager
                     ''You have 20 days of annual leave.''\<rparr>,
          tickets_after =
            (if escalated env_found ''You have 20 days of annual leave.''
             then [''TICKET-'' @ string_of_nat (Date_now env_found) \<mapsto>
                     high_ticket env_found ''Annual leave?'']
             else Map.empty),
          agents_after = counted new_agents,
          executed2 = [fetch_employee_context, categorize, pinecone_query, llamaindex_query,
                       respond, update_conversation_history]\<rparr>"
    by (rule appwriteFunction_success [where u = "()" and v = "()"])
      (simp_all add: leave_payload_def env_found_def)
  then show ?thesis
    by (simp add: scenario_values)
qed

lemma simplified_unknown_run:
  "handler_simplified env_not_found (Inr unknown_payload) =
     Inr \<lparr>response2 =
            \<lparr>status_code = 200,
             body = [(''result'', Str ''I do not have sufficient data. Please contact HR.''),
                     (''category'', Str ''GENERAL''),
                     (''pinecone_result'', Str ''No relevant information found.''),
                     (''ticketId'', Str ''TICKET-1718000000000'')]\<rparr>,
          tickets_after =
            [''TICKET-1718000000000'' \<mapsto>
               \<lparr>ticket_id = ''TICKET-1718000000000'',
                description = ''Query requires human assistance: asdkjasd'',
                status = ''open'', priority = ''high'', updates = []\<rparr>],
          agents_after =
            updateAgentMetrics ''Pinecone Query'' queries_processed
              (updateAgentMetrics ''HR Input Processing'' queries_processed
                 new_agents_simplified),
          executed2 = [categorize, pinecone_query, respond]\<rparr>"
proof -
  have "handler_simplified env_not_found (Inr unknown_payload) =
     Inr \<lparr>response2 = \<lparr>status_code = 200,
            body = success_body_simplified env_not_found ''asdkjasd''
                     ''I do not have sufficient data. Please contact HR.''\<rparr>,
          tickets_after =
            (if escalated env_not_found ''I do not have sufficient data. Please contact HR.''
             then [''TICKET-'' @ string_of_nat (Date_now env_not_found) \<mapsto>
                     high_ticket env_not_found ''asdkjasd'']
             else Map.empty),
          agents_after =
            updateAgentMetrics ''Pinecone Query'' queries_processed
              (updateAgentMetrics ''HR Input Processing'' queries_processed
                 new_agents_simplified),
          executed2 = [categorize, pinecone_query, respond]\<rparr>"
    by (rule handler_simplified_success [where u = "()" and v = "()"])
      (simp_all add: unknown_payload_def env_not_found_def env_found_def)
  then show ?thesis
    by (simp add: scenario_values)
qed

lemma simplified_leave_run:
  "handler_simplified env_found (Inr leave_payload) =
     Inr \<lparr>response2 =
            \<lparr>status_code = 200,
             body = [(''result'', Str ''You have 20 days of annual leave.''),
                     (''category'', Str ''LEAVE''),
                     (''pinecone_result'', Str ''Employees get 20 days annual leave.'')]\<rparr>,
          tickets_after = Map.empty,
          agents_after =
            updateAgentMetrics ''Pinecone Query'' queries_processed
              (updateAgentMetrics ''HR Input Processing'' queries_processed
                 new_agents_simplified),
          executed2 = [categorize, pinecone_query, respond]\<rparr>"
proof -
  have "handler_simplified env_found (Inr leave_payload) =
     Inr \<lparr>response2 = \<lparr>status_code = 200,
            body = success_body_simplified env_found ''Annual leave?''
                     ''You have 20 days of annual leave.''\<rparr>,
          tickets_after =
            (if escalated env_found ''You have 20 days of annual leave.''
             then [''TICKET-'' @ string_of_nat (Date_now env_found) \<mapsto>
                     high_ticket env_found ''Annual leave?'']
             else Map.empty),
          agents_after =
            updateAgentMetrics ''Pinecone Query'' queries_processed
              (updateAgentMetrics ''HR Input Processing'' queries_processed
                 new_agents_simplified),
          executed2 = [categorize, pinecone_query, respond]\<rparr>"
    by (rule handler_simplified_success [where u = "()" and v = "()"])
      (simp_all add: leave_payload_def env_found_def)
  then show ?thesis
    by (simp add: scenario_values)
qed

lemma leave_response:
  "response (handler env_found None leave_request) =
     \<lparr>status_code = 200,
      body = [(''status'', Num 200), (''message'', Str ''Success''),
              (''final_response'', Str ''You have 20 days of annual leave.''),
              (''category'', Str ''LEAVE'')]\<rparr>"
proof -
  have "response (handler env_found None leave_request) =
     \<lparr>status_code = 200,
      body = [(''status'', Num 200), (''message'', Str ''Success''),
              (''final_response'', Str ''You have 20 days of annual leave.''),
              (''category'',
                 Str (HRInputProcessingTool_call (unicode_lower env_found) ''Annual leave?''))]\<rparr>"
    by (rule handler_response_200 [where t = fresh_tools and h = earlier_exchange
          and b = "\<lparr>body_query = Some ''Annual leave?'',
                     body_employee_context = Some sales_manager,
                     body_conversation_history = Some earlier_exchange\<rparr>"])
      (simp_all add: leave_request_def initialize_def env_found_def fresh_tools_def)
  then show ?thesis
    by (simp add: scenario_values)
qed

text \<open>
  The main handler answers the same question with a response of the model that holds the
  marker: there is no escalation in it.
\<close>

lemma marker_response_main:
  "response (handler env_not_found None leave_request) =
     \<lparr>status_code = 200,
      body = [(''status'', Num 200), (''message'', Str ''Success''),
              (''final_response'', Str ''I do not have sufficient data. Please contact HR.''),
              (''category'', Str ''LEAVE'')]\<rparr>"
proof -
  have "response (handler env_not_found None leave_request) =
     \<lparr>status_code = 200,
      body = [(''status'', Num 200), (''message'', Str ''Success''),
              (''final_response'', Str ''I do not have sufficient data. Please contact HR.''),
              (''category'',
                 Str (HRInputProcessingTool_call (unicode_lower env_not_found)
                        ''Annual leave?''))]\<rparr>"
    by (rule handler_response_200 [where t = fresh_tools and h = earlier_exchange
          and b = "\<lparr>body_query = Some ''Annual leave?'',
                     body_employee_context = Some sales_manager,
                     body_conversation_history = Some earlier_exchange\<rparr>"])
      (simp_all add: leave_request_def initialize_def env_not_found_def env_found_def
        fresh_tools_def)
  then show ?thesis
    by (simp add: scenario_values)
qed

subsection \<open>The escalation\<close>

lemma handler_no_ticket:
  "map_of (body (response (handler e hrCopilot req))) ''ticketId'' = None"
  by (simp add: handler_def Let_def res_json_def internal_server_error_def of_string_def
      split: sum.splits option.splits)

text \<open>
  C7, as amended. In every successful run of \<open>appwriteFunction\<close> and of the simplified
  handler, the response carries the synthesized response, and a ticket is created, with
  priority high, and its identifier put into the response exactly when the lower-cased
  response contains the text \<open>contact hr\<close>; a response without this text creates no
  ticket and carries no identifier, also when it mentions contacting HR in other words.
  The ticket is created after the run of the graph: all the nodes have been executed.
  The handler of the main file does no escalation: none of its responses carries a ticket
  identifier.
\<close>

theorem escalation_iff_marker:
  "(appwriteFunction e pl = Inr h \<and> status_code (response2 h) = 200 \<longrightarrow>
      (\<exists>r q. map_of (body (response2 h)) ''result'' = Some (Str r)
         \<and> (if str_includes (toLowerCase (unicode_lower e) r) ''contact hr''
             then map_of (body (response2 h)) ''ticketId''
                    = Some (Str (''TICKET-'' @ string_of_nat (Date_now e)))
                  \<and> tickets_after h =
                      [''TICKET-'' @ string_of_nat (Date_now e) \<mapsto>
                         \<lparr>ticket_id = ''TICKET-'' @ string_of_nat (Date_now e),
                          description = ''Query requires human assistance: '' @ q,
                          status = ''open'', priority = ''high'', updates = []\<rparr>]
             else map_of (body (response2 h)) ''ticketId'' = None
                  \<and> tickets_after h = Map.empty))
      \<and> executed2 h = [fetch_employee_context, categorize, pinecone_query, llamaindex_query,
                        respond, update_conversation_history])
   \<and> (handler_simplified e pl = Inr h' \<and> status_code (response2 h') = 200 \<longrightarrow>
      (\<exists>r q. map_of (body (response2 h')) ''result'' = Some (Str r)
         \<and> (if str_includes (toLowerCase (unicode_lower e) r) ''contact hr''
             then map_of (body (response2 h')) ''ticketId''
                    = Some (Str (''TICKET-'' @ string_of_nat (Date_now e)))
                  \<and> tickets_after h' =
                      [''TICKET-'' @ string_of_nat (Date_now e) \<mapsto>
                         \<lparr>ticket_id = ''TICKET-'' @ string_of_nat (Date_now e),
                          description = ''Query requires human assistance: '' @ q,
                          status = ''open'', priority = ''high'', updates = []\<rparr>]
             else map_of (body (response2 h')) ''ticketId'' = None
                  \<and> tickets_after h' = Map.empty))
      \<and> executed2 h' = [categorize, pinecone_query, respond])
   \<and> map_of (body (response (handler e hrCopilot req))) ''ticketId'' = None"
proof (intro conjI)
  show "map_of (body (response (handler e hrCopilot req))) ''ticketId'' = None"
    by (rule handler_no_ticket)
next
  show "appwriteFunction e pl = Inr h \<and> status_code (response2 h) = 200 \<longrightarrow>
      (\<exists>r q. map_of (body (response2 h)) ''result'' = Some (Str r)
         \<and> (if str_includes (toLowerCase (unicode_lower e) r) ''contact hr''
             then map_of (body (response2 h)) ''ticketId''
                    = Some (Str (''TICKET-'' @ string_of_nat (Date_now e)))
                  \<and> tickets_after h =
                      [''TICKET-'' @ string_of_nat (Date_now e) \<mapsto>
                         \<lparr>ticket_id = ''TICKET-'' @ string_of_nat (Date_now e),
                          description = ''Query requires human assistance: '' @ q,
                          status = ''open'', priority = ''high'', updates = []\<rparr>]
             else map_of (body (response2 h)) ''ticketId'' = None
                  \<and> tickets_after h = Map.empty))
      \<and> executed2 h = [fetch_employee_context, categorize, pinecone_query, llamaindex_query,
                        respond, update_conversation_history]"
  proof (rule impI)
    assume a: "appwriteFunction e pl = Inr h \<and> status_code (response2 h) = 200"
    then obtain p c q r where p: "pl = Inr p" "employeeContext p = Some c"
        "payload_query p = Some q"
        "chain_invoke e (before_respond2 e (input_state2 p) q c) = Inr r"
        "setupPinecone e = Inr ()" "build_agent e = Inr ()"
      by (auto elim: appwriteFunction_200)
    from a have h: "h = \<lparr>response2 = \<lparr>status_code = 200, body = success_body2 e q c r\<rparr>,
            tickets_after =
              (if escalated e r
               then [''TICKET-'' @ string_of_nat (Date_now e) \<mapsto> high_ticket e q]
               else Map.empty),
            agents_after = counted new_agents,
            executed2 = [fetch_employee_context, categorize, pinecone_query, llamaindex_query,
                         respond, update_conversation_history]\<rparr>"
      unfolding p(1) appwriteFunction_success [OF p(5) p(6) p(2) p(3) p(4)] by simp
    show "(\<exists>r q. map_of (body (response2 h)) ''result'' = Some (Str r)
           \<and> (if str_includes (toLowerCase (unicode_lower e) r) ''contact hr''
               then map_of (body (response2 h)) ''ticketId''
                      = Some (Str (''TICKET-'' @ string_of_nat (Date_now e)))
                    \<and> tickets_after h =
                        [''TICKET-'' @ string_of_nat (Date_now e) \<mapsto>
                           \<lparr>ticket_id = ''TICKET-'' @ string_of_nat (Date_now e),
                            description = ''Query requires human assistance: '' @ q,
                            status = ''open'', priority = ''high'', updates = []\<rparr>]
               else map_of (body (response2 h)) ''ticketId'' = None
                    \<and> tickets_after h = Map.empty))
        \<and> executed2 h = [fetch_employee_context, categorize, pinecone_query, llamaindex_query,
                          respond, update_conversation_history]"
      unfolding h
      by (intro conjI exI [of _ r] exI [of _ q])
        (simp_all add: success_body2_lookup escalated_def high_ticket_def)
  qed
next
  show "handler_simplified e pl = Inr h' \<and> status_code (response2 h') = 200 \<longrightarrow>
      (\<exists>r q. map_of (body (response2 h')) ''result'' = Some (Str r)
         \<and> (if str_includes (toLowerCase (unicode_lower e) r) ''contact hr''
             then map_of (body (response2 h')) ''ticketId''
                    = Some (Str (''TICKET-'' @ string_of_nat (Date_now e)))
                  \<and> tickets_after h' =
                      [''TICKET-'' @ string_of_nat (Date_now e) \<mapsto>
                         \<lparr>ticket_id = ''TICKET-'' @ string_of_nat (Date_now e),
                          description = ''Query requires human assistance: '' @ q,
                          status = ''open'', priority = ''high'', updates = []\<rparr>]
             else map_of (body (response2 h')) ''ticketId'' = None
                  \<and> tickets_after h' = Map.empty))
      \<and> executed2 h' = [categorize, pinecone_query, respond]"
  proof (rule impI)
    assume a: "handler_simplified e pl = Inr h' \<and> status_code (response2 h') = 200"
    then obtain p q r where p: "pl = Inr p" "payload_query p = Some q"
        "chain_invoke e (before_respond_simplified e (input_state_simplified p) q) = Inr r"
        "setupPinecone e = Inr ()" "build_agent e = Inr ()"
      by (auto elim: handler_simplified_200)
    from a have h: "h' = \<lparr>response2 = \<lparr>status_code = 200, body = success_body_simplified e q r\<rparr>,
            tickets_after =
              (if escalated e r
               then [''TICKET-'' @ string_of_nat (Date_now e) \<mapsto> high_ticket e q]
               else Map.empty),
            agents_after =
              updateAgentMetrics ''Pinecone Query'' queries_processed
                (updateAgentMetrics ''HR Input Processing'' queries_processed
                   new_agents_simplified),
            executed2 = [categorize, pinecone_query, respond]\<rparr>"
      unfolding p(1) handler_simplified_success [OF p(4) p(5) p(2) p(3)] by simp
    show "(\<exists>r q. map_of (body (response2 h')) ''result'' = Some (Str r)
           \<and> (if str_includes (toLowerCase (unicode_lower e) r) ''contact hr''
               then map_of (body (response2 h')) ''ticketId''
                      = Some (Str (''TICKET-'' @ string_of_nat (Date_now e)))
                    \<and> tickets_after h' =
                        [''TICKET-'' @ string_of_nat (Date_now e) \<mapsto>
                           \<lparr>ticket_id = ''TICKET-'' @ string_of_nat (Date_now e),
                            description = ''Query requires human assistance: '' @ q,
                            status = ''open'', priority = ''high'', updates = []\<rparr>]
               else map_of (body (response2 h')) ''ticketId'' = None
                    \<and> tickets_after h' = Map.empty))
        \<and> executed2 h' = [categorize, pinecone_query, respond]"
      unfolding h
      by (intro conjI exI [of _ r] exI [of _ q])
        (simp_all add: success_body_simplified_lookup escalated_def high_ticket_def)
  qed
qed

theorem escalation_iff_marker_witness:
  "status_code (response2 (projr (appwriteFunction env_not_found (Inr unknown_payload)))) = 200
   \<and> map_of (body (response2 (projr (appwriteFunction env_not_found (Inr unknown_payload)))))
         ''ticketId'' = Some (Str ''TICKET-1718000000000'')
   \<and> map_option priority
        (tickets_after (projr (appwriteFunction env_not_found (Inr unknown_payload)))
           ''TICKET-1718000000000'') = Some ''high''
   \<and> status_code (response2 (projr (appwriteFunction env_found (Inr leave_payload)))) = 200
   \<and> map_of (body (response2 (projr (appwriteFunction env_found (Inr leave_payload)))))
         ''ticketId'' = None
   \<and> tickets_after (projr (appwriteFunction env_found (Inr leave_payload))) = Map.empty
   \<and> status_code (response2 (projr (handler_simplified env_not_found (Inr unknown_payload))))
       = 200
   \<and> map_of (body (response2 (projr (handler_simplified env_not_found (Inr unknown_payload)))))
         ''ticketId'' = Some (Str ''TICKET-1718000000000'')
   \<and> map_option priority
        (tickets_after (projr (handler_simplified env_not_found (Inr unknown_payload)))
           ''TICKET-1718000000000'') = Some ''high''
   \<and> status_code (response2 (projr (handler_simplified env_found (Inr leave_payload)))) = 200
   \<and> map_of (body (response2 (projr (handler_simplified env_found (Inr leave_payload)))))
         ''ticketId'' = None
   \<and> tickets_after (projr (handler_simplified env_found (Inr leave_payload))) = Map.empty
   \<and> map_of (body (response (handler env_not_found None leave_request))) ''final_response''
       = Some (Str ''I do not have sufficient data. Please contact HR.'')
   \<and> map_of (body (response (handler env_not_found None leave_request))) ''ticketId'' = None"
proof -
  let ?h = "projr (appwriteFunction env_not_found (Inr unknown_payload))"
  let ?k = "projr (appwriteFunction env_found (Inr leave_payload))"
  let ?h' = "projr (handler_simplified env_not_found (Inr unknown_payload))"
  let ?k' = "projr (handler_simplified env_found (Inr leave_payload))"
  have h: "appwriteFunction env_not_found (Inr unknown_payload) = Inr ?h
      \<and> status_code (response2 ?h) = 200"
    by (simp add: unknown_run)
  have k: "appwriteFunction env_found (Inr leave_payload) = Inr ?k
      \<and> status_code (response2 ?k) = 200"
    by (simp add: leave_run)
  have h': "handler_simplified env_not_found (Inr unknown_payload) = Inr ?h'
      \<and> status_code (response2 ?h') = 200"
    by (simp add: simplified_unknown_run)
  have k': "handler_simplified env_found (Inr leave_payload) = Inr ?k'
      \<and> status_code (response2 ?k') = 200"
    by (simp add: simplified_leave_run)
  have hr: "map_of (body (response2 ?h)) ''result''
      = Some (Str ''I do not have sufficient data. Please contact HR.'')"
    and kr: "map_of (body (response2 ?k)) ''result''
      = Some (Str ''You have 20 days of annual leave.'')"
    and hr': "map_of (body (response2 ?h')) ''result''
      = Some (Str ''I do not have sufficient data. Please contact HR.'')"
    and kr': "map_of (body (response2 ?k')) ''result''
      = Some (Str ''You have 20 days of annual leave.'')"
    by (simp_all add: unknown_run leave_run simplified_unknown_run simplified_leave_run)
  note found = escalation_iff_marker [of env_found "Inr leave_payload" ?k ?k']
  note unknown = escalation_iff_marker [of env_not_found "Inr unknown_payload" ?h ?h'
      None leave_request]
  from unknown [THEN conjunct1, THEN mp, OF h]
  obtain r q where "map_of (body (response2 ?h)) ''result'' = Some (Str r)"
    and t: "if str_includes (toLowerCase (unicode_lower env_not_found) r) ''contact hr''
       then map_of (body (response2 ?h)) ''ticketId''
              = Some (Str (''TICKET-'' @ string_of_nat (Date_now env_not_found)))
            \<and> tickets_after ?h =
                [''TICKET-'' @ string_of_nat (Date_now env_not_found) \<mapsto>
                   \<lparr>ticket_id = ''TICKET-'' @ string_of_nat (Date_now env_not_found),
                    description = ''Query requires human assistance: '' @ q,
                    status = ''open'', priority = ''high'', updates = []\<rparr>]
       else map_of (body (response2 ?h)) ''ticketId'' = None \<and> tickets_after ?h = Map.empty"
    by blast
  with hr have "r = ''I do not have sufficient data. Please contact HR.''"
    by simp
  with t have 1: "map_of (body (response2 ?h)) ''ticketId'' = Some (Str ''TICKET-1718000000000'')
      \<and> map_option priority (tickets_after ?h ''TICKET-1718000000000'') = Some ''high''"
    by (simp add: scenario_tables contact_hr_marker clock_digits)
  from found [THEN conjunct1, THEN mp, OF k]
  obtain r q where "map_of (body (response2 ?k)) ''result'' = Some (Str r)"
    and t: "if str_includes (toLowerCase (unicode_lower env_found) r) ''contact hr''
       then map_of (body (response2 ?k)) ''ticketId''
              = Some (Str (''TICKET-'' @ string_of_nat (Date_now env_found)))
            \<and> tickets_after ?k =
                [''TICKET-'' @ string_of_nat (Date_now env_found) \<mapsto>
                   \<lparr>ticket_id = ''TICKET-'' @ string_of_nat (Date_now env_found),
                    description = ''Query requires human assistance: '' @ q,
                    status = ''open'', priority = ''high'', updates = []\<rparr>]
       else map_of (body (response2 ?k)) ''ticketId'' = None \<and> tickets_after ?k = Map.empty"
    by blast
  with kr have "r = ''You have 20 days of annual leave.''"
    by simp
  with t have 2: "map_of (body (response2 ?k)) ''ticketId'' = None
      \<and> tickets_after ?k = Map.empty"
    by (simp add: scenario_tables contact_hr_marker)
  from unknown [THEN conjunct2, THEN conjunct1, THEN mp, OF h']
  obtain r q where "map_of (body (response2 ?h')) ''result'' = Some (Str r)"
    and t: "if str_includes (toLowerCase (unicode_lower env_not_found) r) ''contact hr''
       then map_of (body (response2 ?h')) ''ticketId''
              = Some (Str (''TICKET-'' @ string_of_nat (Date_now env_not_found)))
            \<and> tickets_after ?h' =
                [''TICKET-'' @ string_of_nat (Date_now env_not_found) \<mapsto>
                   \<lparr>ticket_id = ''TICKET-'' @ string_of_nat (Date_now env_not_found),
                    description = ''Query requires human assistance: '' @ q,
                    status = ''open'', priority = ''high'', updates = []\<rparr>]
       else map_of (body (response2 ?h')) ''ticketId'' = None \<and> tickets_after ?h' = Map.empty"
    by blast
  with hr' have "r = ''I do not have sufficient data. Please contact HR.''"
    by simp
  with t have 3: "map_of (body (response2 ?h')) ''ticketId''
        = Some (Str ''TICKET-1718000000000'')
      \<and> map_option priority (tickets_after ?h' ''TICKET-1718000000000'') = Some ''high''"
    by (simp add: scenario_tables contact_hr_marker clock_digits)
  from found [THEN conjunct2, THEN conjunct1, THEN mp, OF k']
  obtain r q where "map_of (body (response2 ?k')) ''result'' = Some (Str r)"
    and t: "if str_includes (toLowerCase (unicode_lower env_found) r) ''contact hr''
       then map_of (body (response2 ?k')) ''ticketId''
              = Some (Str (''TICKET-'' @ string_of_nat (Date_now env_found)))
            \<and> tickets_after ?k' =
                [''TICKET-'' @ string_of_nat (Date_now env_found) \<mapsto>
                   \<lparr>ticket_id = ''TICKET-'' @ string_of_nat (Date_now env_found),
                    description = ''Query requires human assistance: '' @ q,
                    status = ''open'', priority = ''high'', updates = []\<rparr>]
       else map_of (body (response2 ?k')) ''ticketId'' = None \<and> tickets_after ?k' = Map.empty"
    by blast
  with kr' have "r = ''You have 20 days of annual leave.''"
    by simp
  with t have 4: "map_of (body (response2 ?k')) ''ticketId'' = None
      \<and> tickets_after ?k' = Map.empty"
    by (simp add: scenario_tables contact_hr_marker)
  from unknown [THEN conjunct2, THEN conjunct2]
  have 5: "map_of (body (response (handler env_not_found None leave_request))) ''ticketId''
      = None" .
  have 6: "map_of (body (response (handler env_not_found None leave_request)))
      ''final_response'' = Some (Str ''I do not have sufficient data. Please contact HR.'')"
    by (simp add: marker_response_main)
  from h k h' k' 1 2 3 4 5 6 show ?thesis
    by simp
qed

text \<open>
  The claim as it was stated fails on a response that mentions contacting HR in the
  words of the prompt: the run is successful and no ticket is created.
\<close>

theorem contacting_hr_counterexample:
  "appwriteFunction env_contacting (Inr unknown_payload) =
     Inr \<lparr>response2 =
            \<lparr>status_code = 200,
             body = [(''result'', Str ''I suggest contacting HR for more details.''),
                     (''category'', Str ''GENERAL''),
                     (''pinecone_result'', Str ''No relevant information found.''),
                     (''llamaindex_result'', Str ''Empty Response''),
                     (''employee_context'', Ctx sales_manager),
                     (''conversation_history'',
                        History [\<lparr>speaker = user, content = Some ''asdkjasd''\<rparr>,
                                 \<lparr>speaker = assistant,
                                  content = Some ''I suggest contacting HR for more details.''\<rparr>])]\<rparr>,
          tickets_after = Map.empty,
          agents_after = counted new_agents,
          executed2 = [fetch_employee_context, categorize, pinecone_query, llamaindex_query,
                       respond, update_conversation_history]\<rparr>"
  by (rule contacting_run)

subsection \<open>The fields of a successful response\<close>

text \<open>
  C8, as amended. A successful response of the handler of the main file has exactly the
  fields status, message, \<open>final_response\<close> and category: it carries neither the retrieval
  results nor the conversation history nor a ticket identifier. A successful response of
  \<open>appwriteFunction\<close> carries the synthesized response (under the name \<open>result\<close>), the
  category, both retrieval results, the employee context, the updated conversation
  history and, exactly when the run was escalated, the ticket identifier. A successful
  response of the simplified handler carries the result, the category, the Pinecone
  result and, when escalated, the ticket identifier.
\<close>

theorem success_response_fields:
  "(status_code (response (handler e hrCopilot req)) = 200 \<longrightarrow>
      (\<exists>q r. body (response (handler e hrCopilot req)) =
          [(''status'', Num 200), (''message'', Str ''Success''),
           (''final_response'', Str r),
           (''category'', Str (HRInputProcessingTool_call (unicode_lower e) q))]))
   \<and> (appwriteFunction e pl = Inr h \<and> status_code (response2 h) = 200 \<longrightarrow>
      (\<exists>q c r. body (response2 h) = success_body2 e q c r
         \<and> map fst (body (response2 h)) =
             [''result'', ''category'', ''pinecone_result'', ''llamaindex_result'',
              ''employee_context'', ''conversation_history'']
             @ (if escalated e r then [''ticketId''] else [])))
   \<and> (handler_simplified e pl = Inr h' \<and> status_code (response2 h') = 200 \<longrightarrow>
      (\<exists>q r. body (response2 h') = success_body_simplified e q r
         \<and> map fst (body (response2 h')) =
             [''result'', ''category'', ''pinecone_result'']
             @ (if escalated e r then [''ticketId''] else [])))"
proof (intro conjI impI)
  assume "status_code (response (handler e hrCopilot req)) = 200"
  then obtain t b q r h where "req_method req = ''POST''" "initialize e hrCopilot = Inr t"
    "req_body req = Some b" "body_query b = Some q"
    "chain_invoke e (before_respond e t (input_state b) q) = Inr r"
    "body_conversation_history b = Some h"
    by (rule handler_200)
  then show "\<exists>q r. body (response (handler e hrCopilot req)) =
          [(''status'', Num 200), (''message'', Str ''Success''),
           (''final_response'', Str r),
           (''category'', Str (HRInputProcessingTool_call (unicode_lower e) q))]"
    by (intro exI [of _ q] exI [of _ r]) (simp add: handler_response_200)
next
  assume a: "appwriteFunction e pl = Inr h \<and> status_code (response2 h) = 200"
  then obtain p c q r where p: "pl = Inr p" "employeeContext p = Some c"
      "payload_query p = Some q"
      "chain_invoke e (before_respond2 e (input_state2 p) q c) = Inr r"
      "setupPinecone e = Inr ()" "build_agent e = Inr ()"
    by (auto elim: appwriteFunction_200)
  from a have "body (response2 h) = success_body2 e q c r"
    unfolding p(1) appwriteFunction_success [OF p(5) p(6) p(2) p(3) p(4)] by auto
  then show "\<exists>q c r. body (response2 h) = success_body2 e q c r
         \<and> map fst (body (response2 h)) =
             [''result'', ''category'', ''pinecone_result'', ''llamaindex_result'',
              ''employee_context'', ''conversation_history'']
             @ (if escalated e r then [''ticketId''] else [])"
    by (intro exI [of _ q] exI [of _ c] exI [of _ r]) (simp add: success_body2_def)
next
  assume a: "handler_simplified e pl = Inr h' \<and> status_code (response2 h') = 200"
  then obtain p q r where p: "pl = Inr p" "payload_query p = Some q"
      "chain_invoke e (before_respond_simplified e (input_state_simplified p) q) = Inr r"
      "setupPinecone e = Inr ()" "build_agent e = Inr ()"
    by (auto elim: handler_simplified_200)
  from a have "body (response2 h') = success_body_simplified e q r"
    unfolding p(1) handler_simplified_success [OF p(4) p(5) p(2) p(3)] by auto
  then show "\<exists>q r. body (response2 h') = success_body_simplified e q r
         \<and> map fst (body (response2 h')) =
             [''result'', ''category'', ''pinecone_result'']
             @ (if escalated e r then [''ticketId''] else [])"
    by (intro exI [of _ q] exI [of _ r]) (simp add: success_body_simplified_def)
qed

theorem success_response_fields_witness:
  "status_code (response (handler env_found None leave_request)) = 200
   \<and> map fst (body (response (handler env_found None leave_request))) =
       [''status'', ''message'', ''final_response'', ''category'']
   \<and> status_code (response2 (projr (appwriteFunction env_not_found (Inr unknown_payload)))) = 200
   \<and> map fst (body (response2 (projr (appwriteFunction env_not_found (Inr unknown_payload))))) =
       [''result'', ''category'', ''pinecone_result'', ''llamaindex_result'',
        ''employee_context'', ''conversation_history'', ''ticketId'']
   \<and> status_code (response2 (projr (handler_simplified env_not_found (Inr unknown_payload))))
       = 200
   \<and> map fst (body (response2 (projr (handler_simplified env_not_found
         (Inr unknown_payload))))) =
       [''result'', ''category'', ''pinecone_result'', ''ticketId'']"
proof -
  let ?h = "projr (appwriteFunction env_not_found (Inr unknown_payload))"
  let ?h' = "projr (handler_simplified env_not_found (Inr unknown_payload))"
  have v1: "status_code (response (handler env_found None leave_request)) = 200"
    by (simp add: leave_response)
  from success_response_fields [of env_found None leave_request, THEN conjunct1, THEN mp, OF v1]
  have 1: "map fst (body (response (handler env_found None leave_request))) =
       [''status'', ''message'', ''final_response'', ''category'']"
    by auto
  have v2: "appwriteFunction env_not_found (Inr unknown_payload) = Inr ?h
      \<and> status_code (response2 ?h) = 200"
    by (simp add: unknown_run)
  from success_response_fields [of env_not_found _ _ "Inr unknown_payload" ?h,
      THEN conjunct2, THEN conjunct1, THEN mp, OF v2]
  obtain q c r where r: "body (response2 ?h) = success_body2 env_not_found q c r"
    and keys: "map fst (body (response2 ?h)) =
             [''result'', ''category'', ''pinecone_result'', ''llamaindex_result'',
              ''employee_context'', ''conversation_history'']
             @ (if escalated env_not_found r then [''ticketId''] else [])"
    by blast
  from r have "r = ''I do not have sufficient data. Please contact HR.''"
    by (simp add: unknown_run success_body2_def)
  with keys have 2: "map fst (body (response2 ?h)) =
       [''result'', ''category'', ''pinecone_result'', ''llamaindex_result'',
        ''employee_context'', ''conversation_history'', ''ticketId'']"
    by (simp add: escalated_def scenario_tables contact_hr_marker)
  have v3: "handler_simplified env_not_found (Inr unknown_payload) = Inr ?h'
      \<and> status_code (response2 ?h') = 200"
    by (simp add: simplified_unknown_run)
  from success_response_fields [of env_not_found _ _ "Inr unknown_payload" _ ?h',
      THEN conjunct2, THEN conjunct2, THEN mp, OF v3]
  obtain q r where r: "body (response2 ?h') = success_body_simplified env_not_found q r"
    and keys: "map fst (body (response2 ?h')) =
             [''result'', ''category'', ''pinecone_result'']
             @ (if escalated env_not_found r then [''ticketId''] else [])"
    by blast
  from r have "r = ''I do not have sufficient data. Please contact HR.''"
    by (simp add: simplified_unknown_run success_body_simplified_def)
  with keys have 3: "map fst (body (response2 ?h')) =
       [''result'', ''category'', ''pinecone_result'', ''ticketId'']"
    by (simp add: escalated_def scenario_tables contact_hr_marker)
  from v1 1 v2 2 v3 3 show ?thesis
    by simp
qed

text \<open>
  The claim as it was stated fails on the handler of the main file: its successful
  response is a strict subset of the fields.
\<close>

theorem success_response_subset_counterexample:
  "status_code (response (handler env_found None leave_request)) = 200
   \<and> map_of (body (response (handler env_found None leave_request))) ''final_response''
       = Some (Str ''You have 20 days of annual leave.'')
   \<and> map_of (body (response (handler env_found None leave_request))) ''conversation_history''
       = None
   \<and> map_of (body (response (handler env_found None leave_request))) ''pinecone_result'' = None
   \<and> map_of (body (response (handler env_found None leave_request))) ''llamaindex_result''
       = None"
  by (simp add: leave_response)


subsection \<open>The employee context\<close>

text \<open>
  C9 claims that the employee context is passed through unchanged and that the context
  node succeeds whether the context is present or absent. The context node of the second
  variant does not: on a request without employee context it throws, and
  \<open>appwriteFunction\<close> answers with status 500 after that one node, where the context node
  of the main file returns the same state unchanged.
\<close>

theorem context_carrier_absent_context:
  "employeeContextNode2 (input_state2 no_context_payload) =
     Inl (TypeError ''Cannot read properties of undefined (reading 'department')'')
   \<and> appwriteFunction env_found (Inr no_context_payload) =
       Inr \<lparr>response2 =
              \<lparr>status_code = 500,
               body = [(''error'', Str ''An error occurred while processing your request.''),
                       (''details'',
                        Str ''Cannot read properties of undefined (reading 'department')'')]\<rparr>,
            tickets_after = Map.empty, agents_after = new_agents,
            executed2 = [fetch_employee_context]\<rparr>
   \<and> employeeContextNode (input_state2 no_context_payload)
       = Inr (input_state2 no_context_payload)"
proof -
  have c: "employee_context (input_state2 no_context_payload) = None"
    by (simp add: input_state2_def no_context_payload_def)
  show ?thesis
    by (simp add: employeeContextNode2_def c appwriteFunction_def env_found_def
        invoke2_no_context [OF c] processing_error_def res_json_def TypeError_def
        employeeContextNode_id)
qed

text \<open>
  In the main file the context node returns its state unchanged, with or without a
  context, and every state of a run, the final one too, holds the employee context of the
  input.
\<close>

theorem employee_context_passed_through:
  "employeeContextNode s = Inr s
   \<and> list_all (\<lambda>(n, s'). employee_context s' = employee_context s) (visited (invoke e t s))
   \<and> (case outcome (invoke e t s) of
        Inl err \<Rightarrow> True
      | Inr s' \<Rightarrow> employee_context s' = employee_context s)"
proof (cases rule: invoke_cases [where s = s and e = e and t = t])
  case no_query
  then show ?thesis
    by (simp add: invoke_no_query employeeContextNode_id)
next
  case (backend_error q err)
  then show ?thesis
    by (simp add: invoke_backend_error employeeContextNode_id before_respond_frame)
next
  case (backend_ok q r)
  then show ?thesis
    by (simp add: invoke_backend_ok employeeContextNode_id before_respond_frame
        conversationHistoryNode_def split: option.splits)
qed


subsection \<open>The ticket system\<close>

lemma ticket_system_after_snoc:
  "ticket_system_after (calls @ [c]) = ticket_step c (ticket_system_after calls)"
  by (simp add: ticket_system_after_def)

lemma ticket_system_reachable:
  assumes "ticket_system_after calls = (ids, ts)"
  shows "dom ts = set ids
    \<and> (\<forall>i t. ts i = Some t \<longrightarrow> ticket_id t = i \<and> status t = ''open'' \<and> prefix ''TICKET-'' i)"
  using assms
proof (induction calls arbitrary: ids ts rule: rev_induct)
  case Nil
  then show ?case
    by (auto simp: ticket_system_after_def)
next
  case (snoc c calls)
  obtain ids0 ts0 where before: "ticket_system_after calls = (ids0, ts0)"
    by (cases "ticket_system_after calls")
  note IH = snoc.IH [OF before]
  from snoc.prems have step: "ticket_step c (ids0, ts0) = (ids, ts)"
    by (simp add: ticket_system_after_snoc before)
  show ?case
  proof (cases c)
    case (CreateTicket now d p)
    define i where "i = ''TICKET-'' @ string_of_nat now"
    define t where "t = \<lparr>ticket_id = i, description = d, status = ''open'',
              priority = (case p of None \<Rightarrow> ''medium'' | Some v \<Rightarrow> v), updates = []\<rparr>"
    have pre: "prefix ''TICKET-'' i"
      unfolding i_def by (rule prefixI) (rule refl)
    from step CreateTicket have ids: "ids = i # ids0" and ts: "ts = ts0(i \<mapsto> t)"
      by (auto simp: createTicket_def Let_def i_def t_def)
    have "dom ts = set ids"
      using IH by (simp add: ids ts)
    moreover have "ticket_id t' = j \<and> status t' = ''open'' \<and> prefix ''TICKET-'' j"
      if "ts j = Some t'" for j t'
    proof (cases "j = i")
      case True
      with that have "t' = t"
        by (simp add: ts)
      with True pre show ?thesis
        by (simp add: t_def)
    next
      case False
      with that have "ts0 j = Some t'"
        by (simp add: ts)
      with IH show ?thesis
        by blast
    qed
    ultimately show ?thesis
      by blast
  next
    case (UpdateTicket now i u)
    with step have ids: "ids = ids0" and ts: "ts = updateTicket now i u ts0"
      by auto
    show ?thesis
    proof (cases "ts0 i")
      case None
      with IH ids ts show ?thesis
        by (simp add: updateTicket_def)
    next
      case (Some t)
      define t1 where "t1 = t\<lparr>updates := updates t @ [\<lparr>timestamp = now, update_content = u\<rparr>]\<rparr>"
      from Some ts have ts': "ts = ts0(i \<mapsto> t1)"
        by (simp add: updateTicket_def t1_def)
      from Some have "i \<in> dom ts0"
        by blast
      then have "dom ts = set ids"
        using IH by (auto simp: ts' ids)
      moreover have "ticket_id t' = j \<and> status t' = ''open'' \<and> prefix ''TICKET-'' j"
        if "ts j = Some t'" for j t'
      proof (cases "j = i")
        case True
        with that have "t' = t1"
          by (simp add: ts')
        moreover from IH Some have "ticket_id t = i \<and> status t = ''open'' \<and> prefix ''TICKET-'' i"
          by blast
        ultimately show ?thesis
          using True by (simp add: t1_def)
      next
        case False
        with that have "ts0 j = Some t'"
          by (simp add: ts')
        with IH show ?thesis
          by blast
      qed
      ultimately show ?thesis
        by blast
    qed
  qed
qed

text \<open>
  C10. \<open>createTicket\<close> stores the new ticket, with status open and no updates, under the
  identifier that it returns, which begins with \<open>TICKET-\<close>; the status of that identifier
  is open right after the call. After any sequence of calls on a new ticket system, the
  status of an identifier is open when \<open>createTicket\<close> has returned it and
  \<open>not found\<close> otherwise, and every stored ticket is stored under its own identifier.
\<close>

theorem ticket_system_invariant:
  "(createTicket now d p ts = (i, ts') \<longrightarrow>
      ts' i = Some \<lparr>ticket_id = i, description = d, status = ''open'',
                    priority = (case p of None \<Rightarrow> ''medium'' | Some v \<Rightarrow> v),
                    updates = []\<rparr>
      \<and> prefix ''TICKET-'' i
      \<and> getTicketStatus i ts' = ''open'')
   \<and> (ticket_system_after calls = (ids, tickets) \<longrightarrow>
      (\<forall>j. getTicketStatus j tickets = (if j \<in> set ids then ''open'' else ''not found''))
      \<and> (\<forall>j t. tickets j = Some t \<longrightarrow>
            ticket_id t = j \<and> status t = ''open'' \<and> prefix ''TICKET-'' j))"
proof (rule conjI; rule impI)
  assume "createTicket now d p ts = (i, ts')"
  then show "ts' i = Some \<lparr>ticket_id = i, description = d, status = ''open'',
                    priority = (case p of None \<Rightarrow> ''medium'' | Some v \<Rightarrow> v),
                    updates = []\<rparr>
      \<and> prefix ''TICKET-'' i
      \<and> getTicketStatus i ts' = ''open''"
    by (auto simp: createTicket_def Let_def getTicketStatus_def or_default_def)
next
  assume "ticket_system_after calls = (ids, tickets)"
  note inv = ticket_system_reachable [OF this]
  have "getTicketStatus j tickets = (if j \<in> set ids then ''open'' else ''not found'')" for j
  proof (cases "tickets j")
    case None
    with inv have "j \<notin> set ids"
      by auto
    with None show ?thesis
      by (simp add: getTicketStatus_def or_default_def)
  next
    case (Some t)
    with inv have "j \<in> set ids" and "status t = ''open''"
      by auto
    with Some show ?thesis
      by (simp add: getTicketStatus_def or_default_def)
  qed
  with inv show "(\<forall>j. getTicketStatus j tickets = (if j \<in> set ids then ''open'' else ''not found''))
      \<and> (\<forall>j t. tickets j = Some t \<longrightarrow>
            ticket_id t = j \<and> status t = ''open'' \<and> prefix ''TICKET-'' j)"
    by blast
qed

theorem ticket_system_invariant_witness:
  "fst (createTicket 1718000000000 ''Printer is broken'' None Map.empty) = ''TICKET-1718000000000''
   \<and> getTicketStatus ''TICKET-1718000000000''
        (snd (createTicket 1718000000000 ''Printer is broken'' None Map.empty)) = ''open''
   \<and> fst (ticket_system_after
        [CreateTicket 1718000000000 ''Printer is broken'' None,
         UpdateTicket 1718000000500 ''TICKET-1718000000000'' ''Assigned'']) =
       [''TICKET-1718000000000'']
   \<and> getTicketStatus ''TICKET-1718000000000'' (snd (ticket_system_after
        [CreateTicket 1718000000000 ''Printer is broken'' None,
         UpdateTicket 1718000000500 ''TICKET-1718000000000'' ''Assigned''])) = ''open''
   \<and> getTicketStatus ''TICKET-1'' (snd (ticket_system_after
        [CreateTicket 1718000000000 ''Printer is broken'' None,
         UpdateTicket 1718000000500 ''TICKET-1718000000000'' ''Assigned''])) = ''not found''"
proof -
  let ?calls = "[CreateTicket 1718000000000 ''Printer is broken'' None,
         UpdateTicket 1718000000500 ''TICKET-1718000000000'' ''Assigned'']"
  let ?c = "createTicket 1718000000000 ''Printer is broken'' None Map.empty"
  have i: "fst ?c = ''TICKET-1718000000000''"
    by (simp add: createTicket_def Let_def clock_digits)
  then have c: "?c = (''TICKET-1718000000000'', snd ?c)"
    by (metis prod.collapse)
  have ids: "fst (ticket_system_after ?calls) = [''TICKET-1718000000000'']"
    by (simp add: ticket_system_after_def createTicket_def Let_def clock_digits)
  then have a: "ticket_system_after ?calls = ([''TICKET-1718000000000''], snd (ticket_system_after ?calls))"
    by (metis prod.collapse)
  note t = ticket_system_invariant [of 1718000000000 "''Printer is broken''" None Map.empty
      "''TICKET-1718000000000''" "snd ?c" ?calls "[''TICKET-1718000000000'']"
      "snd (ticket_system_after ?calls)"]
  from t [THEN conjunct1, THEN mp, OF c]
  have 1: "getTicketStatus ''TICKET-1718000000000'' (snd ?c) = ''open''"
    by simp
  from t [THEN conjunct2, THEN mp, OF a]
  have 2: "getTicketStatus ''TICKET-1718000000000'' (snd (ticket_system_after ?calls)) = ''open''"
    and 3: "getTicketStatus ''TICKET-1'' (snd (ticket_system_after ?calls)) = ''not found''"
    by simp_all
  from i 1 ids 2 3 show ?thesis
    by simp
qed

end
